theory Spec2Isabelle
  imports Main "HOL-Library.Word" "HOL-Library.Multiset"
begin

section \<open>Values shared by the modules\<close>

text \<open>
  Strings are byte strings (\<open>char list\<close>); a file's content is a list of bytes.
  An exception is a value carrying its \<open>message\<close>, and a function that can throw (or a
  promise that can reject) returns \<open>js_error + 'a\<close>.
\<close>

type_synonym byte = "8 word"

datatype js_error = JsError (message: string)

text \<open>
  A JavaScript value, as far as the program tells values apart: a number is an integer or
  \<open>NaN\<close>, and \<open>Object\<close> stands for any array or object. \<open>falsy_value v\<close> is \<open>!v\<close>.
\<close>

datatype js_value = Undefined | Null | Bool bool | Num int | NaN | Str string | Object

fun falsy_value :: "js_value \<Rightarrow> bool" where
  "falsy_value Undefined = True"
| "falsy_value Null = True"
| "falsy_value (Bool b) = (\<not> b)"
| "falsy_value (Num n) = (n = 0)"
| "falsy_value NaN = True"
| "falsy_value (Str s) = (s = [])"
| "falsy_value Object = False"

text \<open>
  The filesystem: a path names a regular file with its bytes, a directory, or nothing.
  \<open>fs.existsSync\<close> is true for files and directories; \<open>fs.readFileSync\<close> throws
  for a missing path (ENOENT) and for a directory (EISDIR). \<open>fs.mkdirSync\<close> records the
  directory it is asked for; the directories above it are not tracked.
\<close>

datatype node = File "byte list" | Directory

type_synonym filesystem = "string \<Rightarrow> node option"

definition existsSync :: "filesystem \<Rightarrow> string \<Rightarrow> bool" where
  "existsSync fs p = (fs p \<noteq> None)"

definition readFileSync :: "filesystem \<Rightarrow> string \<Rightarrow> js_error + byte list" where
  "readFileSync fs p =
     (case fs p of
        None \<Rightarrow> Inl (JsError (''ENOENT: no such file or directory, open '' @ p))
      | Some Directory \<Rightarrow> Inl (JsError ''EISDIR: illegal operation on a directory, read'')
      | Some (File buf) \<Rightarrow> Inr buf)"

definition mkdirSync :: "filesystem \<Rightarrow> string \<Rightarrow> filesystem" where
  "mkdirSync fs p = fs(p \<mapsto> Directory)"

definition unlink :: "filesystem \<Rightarrow> string \<Rightarrow> filesystem" where
  "unlink fs p = fs(p := None)"

text \<open>
  Library functions whose results the program only passes along are parameters of the
  model, collected in one record: the two digests of \<open>crypto\<close>, three functions of
  \<open>path\<close>, \<open>parseInt(s)\<close> and \<open>parseInt(s, 10)\<close> (\<open>None\<close> is NaN), and two behaviours of the SQLite
  engine: the integer a bound text value is converted to when it meets an INTEGER column
  (\<open>None\<close> when it is not converted to an integer), and whether the connection enforces
  foreign keys. The last is the test \<open>res.setHeader\<close> makes of a header value; it
  throws a TypeError for a value that fails it.
\<close>

record externals =
  crypto_md5 :: "byte list \<Rightarrow> byte list"
  crypto_sha256 :: "string \<Rightarrow> byte list"
  path_extname :: "string \<Rightarrow> string"
  path_join :: "string \<Rightarrow> string \<Rightarrow> string"
  path_dirname :: "string \<Rightarrow> string"
  js_parseInt :: "string \<Rightarrow> int option"
  js_parseInt10 :: "string \<Rightarrow> int option"
  sqlite_integer :: "string \<Rightarrow> int option"
  sqlite_foreign_keys :: bool
  http_header_valid :: "string \<Rightarrow> bool"

subsection \<open>String built-ins\<close>

text \<open>
  \<open>String.prototype.toLowerCase\<close> on the ASCII letters; other bytes are unchanged.
  \<open>digest('hex')\<close> writes each byte as two lowercase hexadecimal digits, and
  \<open>decimal\<close> is how a non-negative integer is written when it is joined to a string.
  \<open>includes_str\<close> is \<open>String.prototype.includes\<close>; \<open>endsWith\<close> is what a regular
  expression ending in \<open>$\<close> tests for a literal alternative.
\<close>

definition toLowerCase_char :: "char \<Rightarrow> char" where
  "toLowerCase_char c =
     (case map_of (zip ''ABCDEFGHIJKLMNOPQRSTUVWXYZ'' ''abcdefghijklmnopqrstuvwxyz'') c of
        Some l \<Rightarrow> l
      | None \<Rightarrow> c)"

definition toLowerCase :: "string \<Rightarrow> string" where
  "toLowerCase s = map toLowerCase_char s"

definition endsWith :: "string \<Rightarrow> string \<Rightarrow> bool" where
  "endsWith s suf = (length suf \<le> length s \<and> drop (length s - length suf) s = suf)"

fun includes_str :: "string \<Rightarrow> string \<Rightarrow> bool" where
  "includes_str [] sub = (sub = [])"
| "includes_str (c # s) sub = (take (length sub) (c # s) = sub \<or> includes_str s sub)"

definition hex_digits :: string where
  "hex_digits = ''0123456789abcdef''"

definition hex_byte :: "byte \<Rightarrow> string" where
  "hex_byte b = [hex_digits ! (unat b div 16), hex_digits ! (unat b mod 16)]"

definition hex :: "byte list \<Rightarrow> string" where
  "hex bs = concat (map hex_byte bs)"

fun decimal :: "nat \<Rightarrow> string" where
  "decimal n =
     (if n < 10 then [''0123456789'' ! n]
      else decimal (n div 10) @ [''0123456789'' ! (n mod 10)])"

declare decimal.simps [simp del]

section \<open>config.js\<close>

text \<open>
  \<open>loadProperties(env)\<close> returns an object of string properties; the module then exports
  an object literal with four keys. An object is the list of its own keys and values, and
  reading a key it does not have gives \<open>undefined\<close>.
\<close>

type_synonym js_object = "(string \<times> js_value) list"

definition js_get :: "js_object \<Rightarrow> string \<Rightarrow> js_value" where
  "js_get obj k = (case map_of obj k of None \<Rightarrow> Undefined | Some v \<Rightarrow> v)"

definition config_get :: "(string \<Rightarrow> string option) \<Rightarrow> string \<Rightarrow> js_value" where
  "config_get config k = (case config k of None \<Rightarrow> Undefined | Some v \<Rightarrow> Str v)"

definition parseInt10 :: "externals \<Rightarrow> js_value \<Rightarrow> js_value" where
  "parseInt10 x v =
     (case v of
        Str s \<Rightarrow> (case js_parseInt10 x s of None \<Rightarrow> NaN | Some n \<Rightarrow> Num n)
      | _ \<Rightarrow> NaN)"

definition module_exports :: "externals \<Rightarrow> (string \<Rightarrow> string option) \<Rightarrow> string \<Rightarrow> js_object" where
  "module_exports x config env =
     [(''uploadPath'', config_get config ''upload.path''),
      (''maxFileSize'', parseInt10 x (config_get config ''upload.maxFileSize'')),
      (''maxFiles'', parseInt10 x (config_get config ''upload.maxFiles'')),
      (''env'', Str env)]"

section \<open>database.js\<close>

subsection \<open>Database.init\<close>

text \<open>
  \<open>init\<close> takes the directory of \<open>config.databasePath\<close>, creates it when it is absent
  and opens the database file. \<open>path.dirname\<close> throws a TypeError for an argument that
  is not a string. The result is the filesystem after the bootstrap and the path handed
  to \<open>sqlite3.Database\<close>.
\<close>

definition init :: "externals \<Rightarrow> js_object \<Rightarrow> filesystem \<Rightarrow> js_error + (filesystem \<times> string)" where
  "init x config fs =
     (case js_get config ''databasePath'' of
        Str databasePath \<Rightarrow>
          (let dbDir = path_dirname x databasePath
           in Inr (if \<not> existsSync fs dbDir then mkdirSync fs dbDir else fs, databasePath))
      | _ \<Rightarrow> Inl (JsError ''TypeError: The path argument must be of type string''))"

subsection \<open>The tables of createTables\<close>

text \<open>
  \<open>users\<close>: \<open>id INTEGER PRIMARY KEY AUTOINCREMENT\<close>, \<open>username\<close> and \<open>email\<close>
  \<open>TEXT UNIQUE NOT NULL\<close>, \<open>password_hash TEXT NOT NULL\<close>, and two timestamps that
  default to \<open>CURRENT_TIMESTAMP\<close>. \<open>files\<close>: \<open>id INTEGER PRIMARY KEY AUTOINCREMENT\<close>,
  \<open>user_id INTEGER NOT NULL\<close> with a foreign key to \<open>users (id)\<close>, five more
  \<open>NOT NULL\<close> columns, the nullable \<open>file_hash\<close>, and \<open>uploaded_at\<close> that defaults to
  \<open>CURRENT_TIMESTAMP\<close>. A table is the list of its rows in rowid order. A timestamp is
  the number of whole seconds it denotes: \<open>CURRENT_TIMESTAMP\<close> has the form
  \<open>YYYY-MM-DD HH:MM:SS\<close>, whose text order is the order of the seconds.

  A value of the \<open>user_id\<close> column is the integer the bound value was converted to, or
  the bound text itself when SQLite did not convert it to an integer.
\<close>

datatype sql_value = SqlInteger int | SqlOther string

record user_row =
  u_id :: int
  u_username :: string
  u_email :: string
  u_password_hash :: string
  u_created_at :: nat
  u_updated_at :: nat

record file_row =
  f_id :: int
  f_user_id :: sql_value
  f_original_name :: string
  f_filename :: string
  f_file_path :: string
  f_file_size :: nat
  f_mime_type :: string
  f_file_hash :: "string option"
  f_uploaded_at :: nat

text \<open>
  The state of the database: the two tables and, for each, the largest rowid
  \<open>AUTOINCREMENT\<close> has handed out (the table's entry in \<open>sqlite_sequence\<close>).
\<close>

record database =
  users :: "user_row list"
  files :: "file_row list"
  users_seq :: int
  files_seq :: int

text \<open>
  \<open>AUTOINCREMENT\<close>: the new rowid is one more than the largest rowid that has ever been
  in the table.
\<close>

definition next_rowid :: "int \<Rightarrow> int list \<Rightarrow> int" where
  "next_rowid seq ids = fold max ids seq + 1"

text \<open>
  A value bound to a \<open>?\<close> of a statement that is compared with an integer column: a
  string, a number, or NULL (how \<open>NaN\<close> is bound).
\<close>

datatype bound = Text string | Number int | SqlNull

fun bound_integer :: "externals \<Rightarrow> bound \<Rightarrow> int option" where
  "bound_integer x (Text s) = sqlite_integer x s"
| "bound_integer x (Number n) = Some n"
| "bound_integer x SqlNull = None"

subsection \<open>The methods of Database\<close>

text \<open>
  Each method runs one statement and rejects with the statement's error or resolves with
  its result. The first argument of each model is the error the engine raises for reasons
  outside the program (an I/O error, a locked or full database, a missing table), \<open>None\<close>
  when it raises none; \<open>now\<close> is the value of \<open>CURRENT_TIMESTAMP\<close> when the statement
  runs. A method returns the new state of the database with its result.
\<close>

text \<open>
  The insert into \<open>users\<close> fails on either \<open>UNIQUE\<close> column; when both collide the
  message names the one SQLite checks first.
\<close>

record new_user =
  nu_id :: int
  nu_username :: string
  nu_email :: string

definition createUser ::
  "js_error option \<Rightarrow> nat \<Rightarrow> database \<Rightarrow> string \<Rightarrow> string \<Rightarrow> string
     \<Rightarrow> js_error + (database \<times> new_user)" where
  "createUser fault now d username email passwordHash =
     (case fault of
        Some err \<Rightarrow> Inl err
      | None \<Rightarrow>
          if list_ex (\<lambda>r. u_email r = email) (users d)
          then Inl (JsError ''SQLITE_CONSTRAINT: UNIQUE constraint failed: users.email'')
          else if list_ex (\<lambda>r. u_username r = username) (users d)
          then Inl (JsError ''SQLITE_CONSTRAINT: UNIQUE constraint failed: users.username'')
          else
            (let lastID = next_rowid (users_seq d) (map u_id (users d));
                 row = \<lparr>u_id = lastID, u_username = username, u_email = email,
                        u_password_hash = passwordHash, u_created_at = now,
                        u_updated_at = now\<rparr>
             in Inr (d\<lparr>users := users d @ [row], users_seq := lastID\<rparr>,
                     \<lparr>nu_id = lastID, nu_username = username, nu_email = email\<rparr>)))"

definition getUserByUsername ::
  "js_error option \<Rightarrow> database \<Rightarrow> string \<Rightarrow> js_error + user_row option" where
  "getUserByUsername fault d username =
     (case fault of
        Some err \<Rightarrow> Inl err
      | None \<Rightarrow> Inr (find (\<lambda>r. u_username r = username) (users d)))"

definition getUserById ::
  "js_error option \<Rightarrow> externals \<Rightarrow> database \<Rightarrow> bound \<Rightarrow> js_error + user_row option" where
  "getUserById fault x d ident =
     (case fault of
        Some err \<Rightarrow> Inl err
      | None \<Rightarrow> Inr (find (\<lambda>r. bound_integer x ident = Some (u_id r)) (users d)))"

record new_file =
  nf_id :: int
  nf_userId :: string
  nf_originalName :: string
  nf_filename :: string
  nf_filePath :: string
  nf_fileSize :: nat
  nf_mimeType :: string
  nf_fileHash :: string

text \<open>
  The insert into \<open>files\<close>. The foreign key is checked only when the connection enforces
  foreign keys.
\<close>

definition createFile ::
  "js_error option \<Rightarrow> nat \<Rightarrow> externals \<Rightarrow> database \<Rightarrow> string \<Rightarrow> string \<Rightarrow> string \<Rightarrow> string
     \<Rightarrow> nat \<Rightarrow> string \<Rightarrow> string \<Rightarrow> js_error + (database \<times> new_file)" where
  "createFile fault now x d userId originalName filename filePath fileSize mimeType fileHash =
     (case fault of
        Some err \<Rightarrow> Inl err
      | None \<Rightarrow>
          (let user_id = (case sqlite_integer x userId of
                            Some k \<Rightarrow> SqlInteger k
                          | None \<Rightarrow> SqlOther userId)
           in if sqlite_foreign_keys x \<and> \<not> list_ex (\<lambda>r. SqlInteger (u_id r) = user_id) (users d)
              then Inl (JsError ''SQLITE_CONSTRAINT: FOREIGN KEY constraint failed'')
              else
                (let lastID = next_rowid (files_seq d) (map f_id (files d));
                     row = \<lparr>f_id = lastID, f_user_id = user_id, f_original_name = originalName,
                            f_filename = filename, f_file_path = filePath,
                            f_file_size = fileSize, f_mime_type = mimeType,
                            f_file_hash = Some fileHash, f_uploaded_at = now\<rparr>
                 in Inr (d\<lparr>files := files d @ [row], files_seq := lastID\<rparr>,
                         \<lparr>nf_id = lastID, nf_userId = userId, nf_originalName = originalName,
                          nf_filename = filename, nf_filePath = filePath,
                          nf_fileSize = fileSize, nf_mimeType = mimeType,
                          nf_fileHash = fileHash\<rparr>))))"

text \<open>
  \<open>SELECT * FROM files WHERE user_id = ? ORDER BY uploaded_at DESC\<close>, called with a
  number (\<open>None\<close> is \<open>NaN\<close>, which matches no row). SQL leaves the order of rows with
  equal \<open>uploaded_at\<close> to the engine; SQLite's sorter is stable, so such rows stay in
  rowid order, and the model sorts the same way.
\<close>

definition order_by_uploaded_at_desc :: "file_row list \<Rightarrow> file_row list" where
  "order_by_uploaded_at_desc rows = sort_key (\<lambda>r. - int (f_uploaded_at r)) rows"

definition getFilesByUserId ::
  "js_error option \<Rightarrow> database \<Rightarrow> int option \<Rightarrow> js_error + file_row list" where
  "getFilesByUserId fault d userId =
     (case fault of
        Some err \<Rightarrow> Inl err
      | None \<Rightarrow>
          Inr (order_by_uploaded_at_desc
                 (filter (\<lambda>r. map_option SqlInteger userId = Some (f_user_id r)) (files d))))"

definition getFileByFilename ::
  "js_error option \<Rightarrow> database \<Rightarrow> string \<Rightarrow> js_error + file_row option" where
  "getFileByFilename fault d filename =
     (case fault of
        Some err \<Rightarrow> Inl err
      | None \<Rightarrow> Inr (find (\<lambda>r. f_filename r = filename) (files d)))"

section \<open>The server\<close>

subsection \<open>The file filter of multer\<close>

text \<open>
  What multer knows of a file part when it calls \<open>fileFilter\<close> and the storage callbacks.
\<close>

record file_info =
  fieldname :: string
  originalname :: string
  mimetype :: string

record file_part = file_info +
  content :: "byte list"

text \<open>
  \<open>allowedExtensions\<close> is \<open>/\.(jpeg|jpg|png|gif|pdf|txt|doc|docx)$/i\<close>: the subject,
  compared without regard to case, ends in a dot and one of the eight words.
  \<open>allowedMimetypes\<close> is anchored at both ends and has no flag: the subject is one of
  eight strings.
\<close>

definition extensions :: "string list" where
  "extensions = [''jpeg'', ''jpg'', ''png'', ''gif'', ''pdf'', ''txt'', ''doc'', ''docx'']"

definition mimetypes :: "string list" where
  "mimetypes =
     [''image/jpeg'', ''image/jpg'', ''image/png'', ''image/gif'',
      ''application/pdf'', ''application/msword'',
      ''application/vnd.openxmlformats-officedocument.wordprocessingml.document'',
      ''text/plain'']"

definition allowedExtensions_test :: "string \<Rightarrow> bool" where
  "allowedExtensions_test s = list_ex (\<lambda>e. endsWith (toLowerCase s) (''.'' @ e)) extensions"

definition allowedMimetypes_test :: "string \<Rightarrow> bool" where
  "allowedMimetypes_test s = (s \<in> set mimetypes)"

definition invalid_file_type :: string where
  "invalid_file_type = ''Invalid file type. Only JPEG, PNG, GIF, PDF, TXT, DOC, DOCX are allowed.''"

text \<open>\<open>Inr True\<close> is \<open>cb(null, true)\<close>, \<open>Inl e\<close> is \<open>cb(e)\<close>.\<close>

definition fileFilter :: "'a file_info_scheme \<Rightarrow> js_error + bool" where
  "fileFilter file =
     (let extname = allowedExtensions_test (toLowerCase (originalname file));
          mimetype = allowedMimetypes_test (mimetype file)
      in if mimetype \<and> extname then Inr True else Inl (JsError invalid_file_type))"

text \<open>
  The pair list in the words of the specification: each allowed extension goes with the
  MIME type of its own format.
\<close>

datatype format = JPEG | PNG | GIF | PDF | TXT | DOC | DOCX

definition format_of_extension :: "string \<Rightarrow> format option" where
  "format_of_extension e =
     map_of [(''jpeg'', JPEG), (''jpg'', JPEG), (''png'', PNG), (''gif'', GIF),
             (''pdf'', PDF), (''txt'', TXT), (''doc'', DOC), (''docx'', DOCX)] e"

definition format_of_mimetype :: "string \<Rightarrow> format option" where
  "format_of_mimetype m =
     map_of [(''image/jpeg'', JPEG), (''image/jpg'', JPEG), (''image/png'', PNG),
             (''image/gif'', GIF), (''application/pdf'', PDF), (''text/plain'', TXT),
             (''application/msword'', DOC),
             (''application/vnd.openxmlformats-officedocument.wordprocessingml.document'', DOCX)] m"

definition spec_allowed_pair :: "string \<Rightarrow> string \<Rightarrow> bool" where
  "spec_allowed_pair e m =
     (format_of_extension e \<noteq> None \<and> format_of_extension e = format_of_mimetype m)"

subsection \<open>The disk storage of multer\<close>

text \<open>
  An element of \<open>req.files\<close>: the part's information and what the disk storage adds
  (\<open>fsize\<close> is the field \<open>size\<close>, the number of bytes the storage wrote).
\<close>

record req_file = file_info +
  destination :: string
  filename :: string
  path :: string
  fsize :: nat

text \<open>
  What the environment supplies while the \<open>i\<close>-th file of a request is processed: the
  two readings of the \<open>filename\<close> callback (\<open>Date.now()\<close> and
  \<open>Math.round(Math.random() * 1E9)\<close>), the engine's own failure of the file's insert if
  any, \<open>CURRENT_TIMESTAMP\<close> at that insert (seconds), and \<open>new Date()\<close> when the file's
  descriptor is built (milliseconds).
\<close>

record file_env =
  date_now :: nat
  math_random :: nat
  insert_fault :: "js_error option"
  current_timestamp :: nat
  new_date :: nat

record upload_config =
  uploadPath :: string
  maxFileSize :: nat
  maxFiles :: nat

definition storage_filename :: "externals \<Rightarrow> file_env \<Rightarrow> 'a file_info_scheme \<Rightarrow> string" where
  "storage_filename x e file =
     (let uniqueSuffix = decimal (date_now e) @ ''-'' @ decimal (math_random e)
      in fieldname file @ ''-'' @ uniqueSuffix @ path_extname x (originalname file))"

text \<open>
  \<open>fs.createWriteStream(finalPath)\<close> of the disk storage with the bytes of a part piped
  into it. The stream opens the path with flag \<open>w\<close>, which creates the file or truncates
  it, and writes from offset 0. The parts of a request are parsed out of one body: when
  two parts of a request are given the same path, both streams are open before either
  writes, and the later write lands on the bytes of the earlier one from offset 0 and
  leaves what lies beyond its own length. \<open>earlier\<close> tells whether an earlier part of the
  request was given the path.
\<close>

definition createWriteStream_pipe ::
  "filesystem \<Rightarrow> string \<Rightarrow> bool \<Rightarrow> byte list \<Rightarrow> filesystem" where
  "createWriteStream_pipe fs finalPath earlier written =
     (let old = (if earlier then (case fs finalPath of Some (File b) \<Rightarrow> b | _ \<Rightarrow> []) else [])
      in fs(finalPath \<mapsto> File (written @ drop (length written) old)))"

text \<open>
  \<open>upload.array('files', config.maxFiles)\<close> on a multipart request, for the file parts
  that carry a file name, in the order of the request. A part beyond the limit of files,
  a part of another field, a part the filter refuses and a part larger than the limit of
  bytes each end the upload with an error; the others are written under
  \<open>config.uploadPath\<close> with the generated name, and \<open>size\<close> is the number of bytes the
  stream of the part wrote. On an error multer removes the files this request has stored
  and passes the error on. \<open>handle_parts\<close> returns the files stored and the filesystem,
  with the error if there is one.
\<close>

fun handle_parts ::
  "externals \<Rightarrow> upload_config \<Rightarrow> (nat \<Rightarrow> file_env) \<Rightarrow> nat \<Rightarrow> filesystem \<Rightarrow> file_part list
     \<Rightarrow> req_file list \<Rightarrow> (js_error \<times> req_file list \<times> filesystem) + (req_file list \<times> filesystem)" where
  "handle_parts x cfg env i fs [] stored = Inr (stored, fs)"
| "handle_parts x cfg env i fs (p # ps) stored =
     (if maxFiles cfg \<le> i then Inl (JsError ''Too many files'', stored, fs)
      else if fieldname p \<noteq> ''files'' then Inl (JsError ''Unexpected field'', stored, fs)
      else
        (case fileFilter p of
           Inl err \<Rightarrow> Inl (err, stored, fs)
         | Inr includeFile \<Rightarrow>
             if \<not> includeFile then handle_parts x cfg env (Suc i) fs ps stored
             else
               (let name = storage_filename x (env i) p;
                    finalPath = path_join x (uploadPath cfg) name;
                    written = take (maxFileSize cfg) (content p);
                    file = \<lparr>fieldname = fieldname p, originalname = originalname p,
                            mimetype = mimetype p, destination = uploadPath cfg,
                            filename = name, path = finalPath, fsize = length written\<rparr>;
                    fs' = createWriteStream_pipe fs finalPath (finalPath \<in> set (map path stored))
                            written
                in if maxFileSize cfg < length (content p)
                   then Inl (JsError ''File too large'', stored @ [file], fs')
                   else handle_parts x cfg env (Suc i) fs' ps (stored @ [file]))))"

definition removeUploadedFiles :: "req_file list \<Rightarrow> filesystem \<Rightarrow> filesystem" where
  "removeUploadedFiles stored fs = fold (\<lambda>file fs'. unlink fs' (path file)) stored fs"

definition multer_array ::
  "externals \<Rightarrow> upload_config \<Rightarrow> (nat \<Rightarrow> file_env) \<Rightarrow> filesystem \<Rightarrow> file_part list
     \<Rightarrow> (js_error \<times> filesystem) + (req_file list \<times> filesystem)" where
  "multer_array x cfg env fs parts =
     (case handle_parts x cfg env 0 fs parts [] of
        Inl (err, stored, fs') \<Rightarrow> Inl (err, removeUploadedFiles stored fs')
      | Inr (stored, fs') \<Rightarrow> Inr (stored, fs'))"

subsection \<open>Responses\<close>

record upload_descriptor =
  ud_id :: int
  ud_originalName :: string
  ud_filename :: string
  ud_size :: nat
  ud_mimetype :: string
  ud_hash :: string
  ud_uploadedAt :: nat

record list_descriptor =
  ld_id :: int
  ld_originalName :: string
  ld_filename :: string
  ld_size :: nat
  ld_mimeType :: string
  ld_hash :: "string option"
  ld_uploadedAt :: nat

text \<open>
  A response is a status with a JSON body, or the stream of a download: the headers
  \<open>Content-Disposition\<close>, \<open>Content-Type\<close> and \<open>Content-Length\<close> and the
  bytes piped from the file. \<open>res.json\<close> without \<open>res.status\<close> has status 200. In an
  upload descriptor \<open>uploadedAt\<close> is an instant in milliseconds (the program prints it
  with \<open>toISOString\<close>); in a list descriptor it is the stored timestamp in seconds.
\<close>

datatype body =
    ErrorBody string
  | UserBody int string string
  | UploadBody string "upload_descriptor list"
  | FilesBody "list_descriptor list"

datatype response = Json nat body | Attachment string string nat "byte list"

subsection \<open>POST /api/register\<close>

text \<open>
  The fields of the JSON body. \<open>username\<close> and \<open>email\<close> are \<open>None\<close> when absent and
  a string otherwise (the handlers only test them and hand them to the database);
  \<open>falsy v\<close> is \<open>!v\<close> for such a field. \<open>password\<close> is any value of the body,
  \<open>Undefined\<close> when absent: the handlers hand it to \<open>crypto\<close>, whose \<open>update\<close> throws
  a TypeError for a value that is not a string.
\<close>

definition falsy :: "string option \<Rightarrow> bool" where
  "falsy v = (case v of None \<Rightarrow> True | Some s \<Rightarrow> s = [])"

definition sha256_hex :: "externals \<Rightarrow> js_value \<Rightarrow> js_error + string" where
  "sha256_hex x data =
     (case data of
        Str s \<Rightarrow> Inr (hex (crypto_sha256 x s))
      | _ \<Rightarrow> Inl (JsError ''TypeError: The data argument must be of type string or an instance of Buffer, TypedArray, or DataView''))"

text \<open>The \<open>catch\<close> block of the handler; the handler has not changed the database.\<close>

definition register_catch :: "js_error \<Rightarrow> response" where
  "register_catch error =
     (if includes_str (message error) ''UNIQUE constraint failed''
      then Json 400 (ErrorBody ''Username or email already exists'')
      else Json 500 (ErrorBody ''Registration failed''))"

definition register ::
  "externals \<Rightarrow> js_error option \<Rightarrow> nat \<Rightarrow> database \<Rightarrow> string option \<Rightarrow> string option
     \<Rightarrow> js_value \<Rightarrow> response \<times> database" where
  "register x fault now d username email password =
     (if falsy username \<or> falsy email \<or> falsy_value password
      then (Json 400 (ErrorBody ''Username, email, and password are required''), d)
      else
        (case (username, email) of
           (Some username', Some email') \<Rightarrow>
             (case sha256_hex x password of
                Inl error \<Rightarrow> (register_catch error, d)
              | Inr passwordHash \<Rightarrow>
                  (case createUser fault now d username' email' passwordHash of
                     Inl error \<Rightarrow> (register_catch error, d)
                   | Inr (d', user) \<Rightarrow>
                       (Json 201 (UserBody (nu_id user) (nu_username user) (nu_email user)), d')))
         | _ \<Rightarrow> (Json 400 (ErrorBody ''Username, email, and password are required''), d)))"

subsection \<open>POST /api/login\<close>

definition login ::
  "externals \<Rightarrow> js_error option \<Rightarrow> database \<Rightarrow> string option \<Rightarrow> js_value \<Rightarrow> response" where
  "login x fault d username password =
     (if falsy username \<or> falsy_value password
      then Json 400 (ErrorBody ''Username and password are required'')
      else
        (case username of
           Some username' \<Rightarrow>
             (case getUserByUsername fault d username' of
                Inl error \<Rightarrow> Json 500 (ErrorBody ''Login failed'')
              | Inr None \<Rightarrow> Json 401 (ErrorBody ''Invalid credentials'')
              | Inr (Some user) \<Rightarrow>
                  (case sha256_hex x password of
                     Inl error \<Rightarrow> Json 500 (ErrorBody ''Login failed'')
                   | Inr passwordHash \<Rightarrow>
                       if u_password_hash user \<noteq> passwordHash
                       then Json 401 (ErrorBody ''Invalid credentials'')
                       else Json 200 (UserBody (u_id user) (u_username user) (u_email user))))
         | None \<Rightarrow> Json 400 (ErrorBody ''Username and password are required'')))"

subsection \<open>POST /api/upload\<close>

text \<open>
  The body of the loop over \<open>req.files\<close> for one file: the hash of the bytes read
  from \<open>file.path\<close>, the insert, and the descriptor that is pushed. \<open>e\<close> is what the
  environment supplies for this file.
\<close>

definition upload_file ::
  "externals \<Rightarrow> file_env \<Rightarrow> database \<Rightarrow> filesystem \<Rightarrow> string \<Rightarrow> req_file
     \<Rightarrow> js_error + (database \<times> upload_descriptor)" where
  "upload_file x e d fs userId file =
     (case readFileSync fs (path file) of
        Inl error \<Rightarrow> Inl error
      | Inr buffer \<Rightarrow>
          (let fileHash = hex (crypto_md5 x buffer)
           in case createFile (insert_fault e) (current_timestamp e) x d userId
                     (originalname file) (filename file) (path file) (fsize file)
                     (mimetype file) fileHash of
                Inl error \<Rightarrow> Inl error
              | Inr (d', dbFile) \<Rightarrow>
                  Inr (d', \<lparr>ud_id = nf_id dbFile, ud_originalName = originalname file,
                            ud_filename = filename file, ud_size = fsize file,
                            ud_mimetype = mimetype file, ud_hash = fileHash,
                            ud_uploadedAt = new_date e\<rparr>)))"

text \<open>
  The loop: it returns the descriptors pushed, or the error that left the loop, with the
  database as the loop left it. \<open>i\<close> counts the files done.
\<close>

fun upload_loop ::
  "externals \<Rightarrow> (nat \<Rightarrow> file_env) \<Rightarrow> nat \<Rightarrow> database \<Rightarrow> filesystem \<Rightarrow> string \<Rightarrow> req_file list
     \<Rightarrow> upload_descriptor list \<Rightarrow> (js_error + upload_descriptor list) \<times> database" where
  "upload_loop x env i d fs userId [] uploadedFiles = (Inr uploadedFiles, d)"
| "upload_loop x env i d fs userId (file # rest) uploadedFiles =
     (case upload_file x (env i) d fs userId file of
        Inl error \<Rightarrow> (Inl error, d)
      | Inr (d', descriptor) \<Rightarrow>
          upload_loop x env (Suc i) d' fs userId rest (uploadedFiles @ [descriptor]))"

text \<open>
  The handler. \<open>userId\<close> is the field of the body (\<open>None\<close> when absent), \<open>fault\<close> the
  engine's own failure of the user lookup, \<open>req_files\<close> is \<open>req.files\<close> (\<open>None\<close> when
  undefined). The handler reads the filesystem and changes only the database.
\<close>

definition upload_handler ::
  "externals \<Rightarrow> (nat \<Rightarrow> file_env) \<Rightarrow> js_error option \<Rightarrow> database \<Rightarrow> filesystem \<Rightarrow> string option
     \<Rightarrow> req_file list option \<Rightarrow> response \<times> database" where
  "upload_handler x env fault d fs userId req_files =
     (if falsy userId then (Json 400 (ErrorBody ''User ID is required''), d)
      else
        (case userId of
           None \<Rightarrow> (Json 400 (ErrorBody ''User ID is required''), d)
         | Some userId' \<Rightarrow>
             (case getUserById fault x d (Text userId') of
                Inl error \<Rightarrow> (Json 500 (ErrorBody ''File upload failed''), d)
              | Inr None \<Rightarrow> (Json 401 (ErrorBody ''Invalid user''), d)
              | Inr (Some user) \<Rightarrow>
                  (case req_files of
                     None \<Rightarrow> (Json 400 (ErrorBody ''No files provided''), d)
                   | Some fl \<Rightarrow>
                       if length fl = 0 then (Json 400 (ErrorBody ''No files provided''), d)
                       else
                         (case upload_loop x env 0 d fs userId' fl [] of
                            (Inl error, d') \<Rightarrow> (Json 500 (ErrorBody ''File upload failed''), d')
                          | (Inr uploadedFiles, d') \<Rightarrow>
                              (Json 201 (UploadBody ''Files uploaded successfully'' uploadedFiles),
                               d'))))))"

text \<open>
  The route: the multer middleware runs first; when it passes an error on, the error
  middleware of the application answers, otherwise the handler runs on the filesystem
  the middleware left.
\<close>

definition upload_route ::
  "externals \<Rightarrow> upload_config \<Rightarrow> (nat \<Rightarrow> file_env) \<Rightarrow> js_error option \<Rightarrow> database \<Rightarrow> filesystem
     \<Rightarrow> string option \<Rightarrow> file_part list \<Rightarrow> response \<times> database \<times> filesystem" where
  "upload_route x cfg env fault d fs userId parts =
     (case multer_array x cfg env fs parts of
        Inl (err, fs') \<Rightarrow> (Json 500 (ErrorBody ''Internal server error''), d, fs')
      | Inr (stored, fs') \<Rightarrow>
          (case upload_handler x env fault d fs' userId (Some stored) of
             (res, d') \<Rightarrow> (res, d', fs')))"

subsection \<open>GET /api/users/:id/files\<close>

definition list_descriptor_of :: "file_row \<Rightarrow> list_descriptor" where
  "list_descriptor_of file =
     \<lparr>ld_id = f_id file, ld_originalName = f_original_name file, ld_filename = f_filename file,
      ld_size = f_file_size file, ld_mimeType = f_mime_type file, ld_hash = f_file_hash file,
      ld_uploadedAt = f_uploaded_at file\<rparr>"

definition list_files ::
  "externals \<Rightarrow> js_error option \<Rightarrow> js_error option \<Rightarrow> database \<Rightarrow> string \<Rightarrow> response" where
  "list_files x fault1 fault2 d ident =
     (let userId = js_parseInt x ident
      in case getUserById fault1 x d (case userId of None \<Rightarrow> SqlNull | Some n \<Rightarrow> Number n) of
           Inl error \<Rightarrow> Json 500 (ErrorBody ''Failed to retrieve files'')
         | Inr None \<Rightarrow> Json 404 (ErrorBody ''User not found'')
         | Inr (Some user) \<Rightarrow>
             (case getFilesByUserId fault2 d userId of
                Inl error \<Rightarrow> Json 500 (ErrorBody ''Failed to retrieve files'')
              | Inr rows \<Rightarrow> Json 200 (FilesBody (map list_descriptor_of rows))))"

subsection \<open>GET /api/download/:filename\<close>

text \<open>
  The three headers are set inside the \<open>try\<close> block, so a header value that
  \<open>setHeader\<close> refuses ends in the \<open>catch\<close> block. The read stream of a path that
  exists but cannot be read (a directory) emits an error before any header is sent, and
  the handler answers 500.
\<close>

definition content_disposition :: "string \<Rightarrow> string" where
  "content_disposition original_name =
     ''attachment; filename='' @ [CHR 0x22] @ original_name @ [CHR 0x22]"

definition download ::
  "externals \<Rightarrow> js_error option \<Rightarrow> database \<Rightarrow> filesystem \<Rightarrow> string \<Rightarrow> response" where
  "download x fault d fs name =
     (case getFileByFilename fault d name of
        Inl error \<Rightarrow> Json 500 (ErrorBody ''Download failed'')
      | Inr None \<Rightarrow> Json 404 (ErrorBody ''File not found'')
      | Inr (Some file) \<Rightarrow>
          (let filePath = f_file_path file
           in if \<not> existsSync fs filePath
              then Json 404 (ErrorBody ''Physical file not found on server'')
              else if \<not> http_header_valid x (content_disposition (f_original_name file))
                      \<or> \<not> http_header_valid x (f_mime_type file)
              then Json 500 (ErrorBody ''Download failed'')
              else
                (case readFileSync fs filePath of
                   Inl error \<Rightarrow> Json 500 (ErrorBody ''File download failed'')
                 | Inr bytes \<Rightarrow>
                     Attachment (content_disposition (f_original_name file)) (f_mime_type file)
                       (f_file_size file) bytes)))"

section \<open>Concrete data for the examples\<close>

text \<open>
  The examples run the model on one small scenario: user \<open>alice\<close> (id 1, password
  \<open>pw1\<close>) and two text files, \<open>hello.txt\<close> with the bytes of \<open>hello\<close> and
  \<open>a.txt\<close> with the byte of \<open>a\<close>. The library functions are replaced by stand-ins
  that agree with them on the inputs of the scenario: the digests are tables of the true
  MD5 and SHA-256 values, \<open>example_extname\<close> is the part of a name from its last dot,
  \<open>example_integer\<close> reads a string of decimal digits, and a header value is valid
  when it has no control character but the tab.
\<close>

definition example_md5 :: "byte list \<Rightarrow> byte list" where
  "example_md5 buf =
     (if buf = [0x68, 0x65, 0x6c, 0x6c, 0x6f]
      then [0x5d, 0x41, 0x40, 0x2a, 0xbc, 0x4b, 0x2a, 0x76,
            0xb9, 0x71, 0x9d, 0x91, 0x10, 0x17, 0xc5, 0x92]
      else if buf = [0x61]
      then [0x0c, 0xc1, 0x75, 0xb9, 0xc0, 0xf1, 0xb6, 0xa8,
            0x31, 0xc3, 0x99, 0xe2, 0x69, 0x77, 0x26, 0x61]
      else if buf = [0x61, 0x65, 0x6c, 0x6c, 0x6f]
      then [0xee, 0xb4, 0x13, 0x7f, 0x9f, 0xdb, 0xcd, 0x46,
            0xc0, 0xa7, 0x34, 0xb7, 0x6b, 0xda, 0xad, 0x9d]
      else replicate 16 0)"

definition example_sha256 :: "string \<Rightarrow> byte list" where
  "example_sha256 s =
     (if s = ''pw1''
      then [0xc5, 0x92, 0xdf, 0x4a, 0x86, 0x93, 0x3b, 0x92,
            0xad, 0xdc, 0x98, 0x42, 0x40, 0x2d, 0xdf, 0x19,
            0x8c, 0x63, 0x8e, 0xa9, 0xbe, 0x58, 0x91, 0x6e,
            0xe6, 0xe3, 0x73, 0x4e, 0x1e, 0x31, 0x52, 0xf8]
      else if s = ''wrong''
      then [0x88, 0x10, 0xad, 0x58, 0x1e, 0x59, 0xf2, 0xbc,
            0x39, 0x28, 0xb2, 0x61, 0x70, 0x7a, 0x71, 0x30,
            0x8f, 0x7e, 0x13, 0x9e, 0xb0, 0x48, 0x20, 0x36,
            0x6d, 0xc4, 0xd5, 0xc1, 0x8d, 0x98, 0x02, 0x25]
      else replicate 32 0)"

definition example_extname :: "string \<Rightarrow> string" where
  "example_extname s =
     (if CHR ''.'' \<in> set s then CHR ''.'' # rev (takeWhile (\<lambda>c. c \<noteq> CHR ''.'') (rev s)) else [])"

definition example_integer :: "string \<Rightarrow> int option" where
  "example_integer s =
     (if s \<noteq> [] \<and> list_all (\<lambda>c. c \<in> set ''0123456789'') s
      then Some (foldl (\<lambda>a c. 10 * a + int (length (takeWhile (\<lambda>k. k \<noteq> c) ''0123456789''))) 0 s)
      else None)"

definition example_externals :: externals where
  "example_externals =
     \<lparr>crypto_md5 = example_md5,
      crypto_sha256 = example_sha256,
      path_extname = example_extname,
      path_join = (\<lambda>dir name. dir @ ''/'' @ name),
      path_dirname = (\<lambda>p. ''.''),
      js_parseInt = example_integer,
      js_parseInt10 = example_integer,
      sqlite_integer = example_integer,
      sqlite_foreign_keys = False,
      http_header_valid =
        list_all (\<lambda>c. c = CHR 0x09 \<or> 32 \<le> (of_char c :: nat) \<and> (of_char c :: nat) \<noteq> 127)\<rparr>"

definition example_config :: upload_config where
  "example_config = \<lparr>uploadPath = ''uploads'', maxFileSize = 1024, maxFiles = 5\<rparr>"

definition alice :: user_row where
  "alice =
     \<lparr>u_id = 1, u_username = ''alice'', u_email = ''alice@x.com'',
      u_password_hash = ''c592df4a86933b92addc9842402ddf198c638ea9be58916ee6e3734e1e3152f8'',
      u_created_at = 50, u_updated_at = 50\<rparr>"

definition empty_database :: database where
  "empty_database = \<lparr>users = [], files = [], users_seq = 0, files_seq = 0\<rparr>"

definition alice_database :: database where
  "alice_database = \<lparr>users = [alice], files = [], users_seq = 1, files_seq = 0\<rparr>"

definition hello_part :: file_part where
  "hello_part =
     \<lparr>fieldname = ''files'', originalname = ''hello.txt'', mimetype = ''text/plain'',
      content = [0x68, 0x65, 0x6c, 0x6c, 0x6f]\<rparr>"

definition a_part :: file_part where
  "a_part =
     \<lparr>fieldname = ''files'', originalname = ''a.txt'', mimetype = ''text/plain'',
      content = [0x61]\<rparr>"

definition example_env :: "nat \<Rightarrow> file_env" where
  "example_env i =
     \<lparr>date_now = 5, math_random = 7 + i, insert_fault = None, current_timestamp = 100,
      new_date = 100250\<rparr>"

definition full_disk_env :: "nat \<Rightarrow> file_env" where
  "full_disk_env i =
     (example_env i)\<lparr>insert_fault :=
        (if i = 1 then Some (JsError ''SQLITE_FULL: database or disk is full'') else None)\<rparr>"

definition same_name_env :: "nat \<Rightarrow> file_env" where
  "same_name_env i = (example_env i)\<lparr>math_random := 7\<rparr>"

definition hello_file :: req_file where
  "hello_file =
     \<lparr>fieldname = ''files'', originalname = ''hello.txt'', mimetype = ''text/plain'',
      destination = ''uploads'', filename = ''files-5-7.txt'', path = ''uploads/files-5-7.txt'',
      fsize = 5\<rparr>"

definition a_file :: req_file where
  "a_file =
     \<lparr>fieldname = ''files'', originalname = ''a.txt'', mimetype = ''text/plain'',
      destination = ''uploads'', filename = ''files-5-8.txt'', path = ''uploads/files-5-8.txt'',
      fsize = 1\<rparr>"

definition hello_row :: file_row where
  "hello_row =
     \<lparr>f_id = 1, f_user_id = SqlInteger 1, f_original_name = ''hello.txt'',
      f_filename = ''files-5-7.txt'', f_file_path = ''uploads/files-5-7.txt'', f_file_size = 5,
      f_mime_type = ''text/plain'', f_file_hash = Some ''5d41402abc4b2a76b9719d911017c592'',
      f_uploaded_at = 100\<rparr>"

definition a_row :: file_row where
  "a_row =
     \<lparr>f_id = 2, f_user_id = SqlInteger 1, f_original_name = ''a.txt'',
      f_filename = ''files-5-8.txt'', f_file_path = ''uploads/files-5-8.txt'', f_file_size = 1,
      f_mime_type = ''text/plain'', f_file_hash = Some ''0cc175b9c0f1b6a831c399e269772661'',
      f_uploaded_at = 100\<rparr>"

definition hello_database :: database where
  "hello_database = \<lparr>users = [alice], files = [hello_row], users_seq = 1, files_seq = 1\<rparr>"

definition hello_fs :: filesystem where
  "hello_fs = [''uploads/files-5-7.txt'' \<mapsto> File [0x68, 0x65, 0x6c, 0x6c, 0x6f]]"

section \<open>Unfolding the examples\<close>

text \<open>The definitions an example unfolds to run the model.\<close>

lemmas example_defs =
  example_externals_def example_config_def alice_def alice_database_def empty_database_def
  hello_part_def a_part_def example_env_def example_md5_def example_sha256_def
  example_extname_def example_integer_def full_disk_env_def same_name_env_def
  hello_file_def a_file_def hello_row_def a_row_def hello_database_def hello_fs_def

lemmas upload_defs =
  upload_route_def multer_array_def removeUploadedFiles_def unlink_def storage_filename_def
  createWriteStream_pipe_def
  decimal.simps upload_handler_def falsy_def upload_file_def getUserById_def createFile_def
  readFileSync_def next_rowid_def hex_def hex_byte_def hex_digits_def Let_def

section \<open>Properties of the configuration and of Database.init\<close>

text \<open>
  C9. The configuration module exports exactly the keys \<open>uploadPath\<close>, \<open>maxFileSize\<close>,
  \<open>maxFiles\<close> and \<open>env\<close>, whatever the properties file holds and whatever the
  environment is called. So \<open>config.databasePath\<close>, which \<open>Database.init\<close> reads, is
  \<open>undefined\<close>, and the directory bootstrap of \<open>init\<close> is handed an undefined path:
  \<open>path.dirname\<close> refuses it, and \<open>init\<close> throws before it creates a directory or opens
  a database.
\<close>

theorem config_exports_lack_databasePath:
  "map fst (module_exports x config env) = [''uploadPath'', ''maxFileSize'', ''maxFiles'', ''env'']
   \<and> js_get (module_exports x config env) ''databasePath'' = Undefined
   \<and> init x (module_exports x config env) fs
       = Inl (JsError ''TypeError: The path argument must be of type string'')"
  by (simp add: module_exports_def js_get_def init_def)

text \<open>
  The properties of a local environment, with a \<open>database.path\<close> entry the module never
  reads.
\<close>

theorem config_exports_lack_databasePath_witness:
  "module_exports example_externals
     [''upload.path'' \<mapsto> ''./uploads'', ''upload.maxFileSize'' \<mapsto> ''10485760'',
      ''upload.maxFiles'' \<mapsto> ''5'', ''database.path'' \<mapsto> ''./database/nik.db''] ''local''
   = [(''uploadPath'', Str ''./uploads''), (''maxFileSize'', Num 10485760),
      (''maxFiles'', Num 5), (''env'', Str ''local'')]
   \<and> js_get (module_exports example_externals
         [''upload.path'' \<mapsto> ''./uploads'', ''upload.maxFileSize'' \<mapsto> ''10485760'',
          ''upload.maxFiles'' \<mapsto> ''5'', ''database.path'' \<mapsto> ''./database/nik.db''] ''local'')
       ''databasePath'' = Undefined"
proof -
  have "module_exports example_externals
     [''upload.path'' \<mapsto> ''./uploads'', ''upload.maxFileSize'' \<mapsto> ''10485760'',
      ''upload.maxFiles'' \<mapsto> ''5'', ''database.path'' \<mapsto> ''./database/nik.db''] ''local''
   = [(''uploadPath'', Str ''./uploads''), (''maxFileSize'', Num 10485760),
      (''maxFiles'', Num 5), (''env'', Str ''local'')]"
    by (simp add: module_exports_def config_get_def parseInt10_def example_externals_def
        example_integer_def)
  with config_exports_lack_databasePath
    [of example_externals
        "[''upload.path'' \<mapsto> ''./uploads'', ''upload.maxFileSize'' \<mapsto> ''10485760'',
          ''upload.maxFiles'' \<mapsto> ''5'', ''database.path'' \<mapsto> ''./database/nik.db'']"
        "''local''" Map.empty]
  show ?thesis by simp
qed

section \<open>Properties of the file filter\<close>

lemma toLowerCase_char_idem: "toLowerCase_char (toLowerCase_char c) = toLowerCase_char c"
  unfolding toLowerCase_char_def
  by (auto split: option.splits if_splits)

lemma toLowerCase_idem: "toLowerCase (toLowerCase s) = toLowerCase s"
  by (simp add: toLowerCase_def toLowerCase_char_idem)

lemma endsWith_iff: "endsWith s suf \<longleftrightarrow> (\<exists>stem. s = stem @ suf)"
proof
  assume "endsWith s suf"
  then have "s = take (length s - length suf) s @ suf"
    by (metis append_take_drop_id endsWith_def)
  then show "\<exists>stem. s = stem @ suf" ..
next
  assume "\<exists>stem. s = stem @ suf"
  then show "endsWith s suf" by (auto simp: endsWith_def)
qed

lemma allowedExtensions_test_iff:
  "allowedExtensions_test s \<longleftrightarrow> (\<exists>e \<in> set extensions. \<exists>stem. toLowerCase s = stem @ ''.'' @ e)"
  by (simp add: allowedExtensions_test_def list_ex_iff endsWith_iff)

lemma fileFilter_Inr: "fileFilter p = Inr b \<Longrightarrow> b"
  by (simp add: fileFilter_def Let_def split: if_splits)

lemmas filter_defs =
  fileFilter_def allowedExtensions_test_def allowedMimetypes_test_def mimetypes_def
  extensions_def endsWith_def toLowerCase_def toLowerCase_char_def

text \<open>
  C4 (amended). A file part is accepted exactly when its name, without regard to case,
  ends in a dot and one of \<open>jpeg jpg png gif pdf txt doc docx\<close> and its declared MIME
  type is one of the eight allowed types; otherwise it is refused with the error
  \<open>Invalid file type. Only JPEG, PNG, GIF, PDF, TXT, DOC, DOCX are allowed.\<close> The two
  tests are independent: the filter holds two lists, not a list of pairs, and does not
  ask that the MIME type be the one of the extension's format.
\<close>

theorem fileFilter_checks_independently:
  "fileFilter file =
     (if (\<exists>e \<in> set extensions. \<exists>stem. toLowerCase (originalname file) = stem @ ''.'' @ e)
         \<and> mimetype file \<in> set mimetypes
      then Inr True
      else Inl (JsError invalid_file_type))"
  by (simp add: fileFilter_def allowedExtensions_test_iff toLowerCase_idem allowedMimetypes_test_def)

text \<open>An accepted and a refused part.\<close>

theorem fileFilter_checks_independently_witness:
  "(\<exists>e \<in> set extensions. \<exists>stem. toLowerCase ''Report.PDF'' = stem @ ''.'' @ e)
   \<and> ''application/pdf'' \<in> set mimetypes
   \<and> fileFilter \<lparr>fieldname = ''files'', originalname = ''Report.PDF'', mimetype = ''application/pdf''\<rparr> = Inr True
   \<and> fileFilter \<lparr>fieldname = ''files'', originalname = ''run.exe'', mimetype = ''application/pdf''\<rparr>
       = Inl (JsError invalid_file_type)"
proof -
  have a: "fileFilter \<lparr>fieldname = ''files'', originalname = ''Report.PDF'', mimetype = ''application/pdf''\<rparr> = Inr True"
    by (simp add: fileFilter_def allowedExtensions_test_def allowedMimetypes_test_def mimetypes_def
        extensions_def endsWith_def toLowerCase_def toLowerCase_char_def)
  have b: "fileFilter \<lparr>fieldname = ''files'', originalname = ''run.exe'', mimetype = ''application/pdf''\<rparr>
       = Inl (JsError invalid_file_type)"
    by (simp add: fileFilter_def allowedExtensions_test_def allowedMimetypes_test_def mimetypes_def
        extensions_def endsWith_def toLowerCase_def toLowerCase_char_def)
  from a fileFilter_checks_independently
    [of "\<lparr>fieldname = ''files'', originalname = ''Report.PDF'', mimetype = ''application/pdf''\<rparr>"]
  have "(\<exists>e \<in> set extensions. \<exists>stem. toLowerCase ''Report.PDF'' = stem @ ''.'' @ e)
   \<and> ''application/pdf'' \<in> set mimetypes"
    by (simp split: if_splits)
  with a b show ?thesis by simp
qed

text \<open>
  C4 as stated fails: a file named \<open>photo.png\<close> and declared \<open>application/pdf\<close> is
  accepted, though \<open>png\<close> and \<open>application/pdf\<close> are no pair of one format.
\<close>

theorem fileFilter_accepts_mismatched_pair:
  "fileFilter \<lparr>fieldname = ''files'', originalname = ''photo.png'', mimetype = ''application/pdf''\<rparr> = Inr True
   \<and> \<not> spec_allowed_pair ''png'' ''application/pdf''"
  by (simp add: fileFilter_def allowedExtensions_test_def allowedMimetypes_test_def mimetypes_def
        extensions_def endsWith_def toLowerCase_def toLowerCase_char_def spec_allowed_pair_def
        format_of_extension_def format_of_mimetype_def)

section \<open>Properties of registration and login\<close>

lemma unique_message_username:
  "includes_str ''SQLITE_CONSTRAINT: UNIQUE constraint failed: users.username'' ''UNIQUE constraint failed''"
  by simp

lemma unique_message_email:
  "includes_str ''SQLITE_CONSTRAINT: UNIQUE constraint failed: users.email'' ''UNIQUE constraint failed''"
  by simp

lemma createUser_taken:
  assumes "list_ex (\<lambda>r. u_username r = username \<or> u_email r = email) (users d)"
  shows "\<exists>m. createUser None now d username email h = Inl (JsError m)
             \<and> includes_str m ''UNIQUE constraint failed''"
proof (cases "list_ex (\<lambda>r. u_email r = email) (users d)")
  case True
  then have "createUser None now d username email h
     = Inl (JsError ''SQLITE_CONSTRAINT: UNIQUE constraint failed: users.email'')"
    by (simp add: createUser_def)
  with unique_message_email show ?thesis by blast
next
  case False
  with assms have "list_ex (\<lambda>r. u_username r = username) (users d)"
    by (auto simp: list_ex_iff)
  with False have "createUser None now d username email h
     = Inl (JsError ''SQLITE_CONSTRAINT: UNIQUE constraint failed: users.username'')"
    by (simp add: createUser_def)
  with unique_message_username show ?thesis by blast
qed

lemma register_taken:
  assumes "username \<noteq> []" and "email \<noteq> []" and "password \<noteq> []"
    and "list_ex (\<lambda>r. u_username r = username \<or> u_email r = email) (users d)"
  shows "register x None now d (Some username) (Some email) (Str password)
       = (Json 400 (ErrorBody ''Username or email already exists''), d)"
proof -
  from createUser_taken[OF assms(4)] obtain m where
    "createUser None now d username email (hex (crypto_sha256 x password)) = Inl (JsError m)"
    "includes_str m ''UNIQUE constraint failed''" by blast
  with assms(1-3) show ?thesis
    by (simp add: register_def register_catch_def falsy_def sha256_hex_def)
qed

lemma createUser_Inr:
  assumes "createUser fault now d username email h = Inr (d', user)"
  shows "\<exists>row. users d' = users d @ [row] \<and> u_username row = username \<and> u_email row = email
           \<and> \<not> list_ex (\<lambda>r. u_username r = username) (users d)
           \<and> \<not> list_ex (\<lambda>r. u_email r = email) (users d)
           \<and> files d' = files d"
  using assms by (auto simp: createUser_def Let_def split: option.splits if_splits)

lemma createUser_Inl_taken:
  assumes "list_ex (\<lambda>r. u_username r = username \<or> u_email r = email) (users d)"
  shows "\<exists>e. createUser fault now d username email h = Inl e"
  using createUser_taken[OF assms, of now h] by (cases fault) (auto simp: createUser_def)

lemma register_201:
  assumes "register x fault now d username email password = (Json 201 b, d')"
  shows "\<exists>u e p user. username = Some u \<and> email = Some e \<and> password = Str p
           \<and> createUser fault now d u e (hex (crypto_sha256 x p)) = Inr (d', user)"
  using assms
  by (auto simp: register_def register_catch_def falsy_def sha256_hex_def
      split: if_splits option.splits sum.splits prod.splits js_value.splits)

lemma register_keeps_database:
  assumes "list_ex (\<lambda>r. u_username r = username \<or> u_email r = email) (users d)"
  shows "snd (register x fault now d (Some username) (Some email) password) = d"
proof (cases "sha256_hex x password")
  case (Inl e)
  then show ?thesis by (simp add: register_def)
next
  case (Inr h)
  from createUser_Inl_taken[OF assms] obtain e where
    "createUser fault now d username email h = Inl e" by blast
  with Inr show ?thesis by (simp add: register_def)
qed

text \<open>
  After a registration has succeeded, a second registration that supplies a username,
  an email and a password that is a string, and repeats the username or the email, is
  answered 400 with \<open>Username or email already exists\<close>. It leaves the database as it
  was: the first call added one row, the second adds none, whatever its password is and
  whatever the engine does with its statement. If usernames and emails were pairwise
  distinct before the first call they still are after it. This holds for every state of
  the database before the two calls.
\<close>

lemma register_twice_string_password:
  assumes "register x fault1 now1 d (Some username1) (Some email1) password1 = (Json 201 b, d1)"
    and "username2 \<noteq> []" and "email2 \<noteq> []" and "password2 \<noteq> []"
    and "username2 = username1 \<or> email2 = email1"
  shows "register x None now2 d1 (Some username2) (Some email2) (Str password2)
           = (Json 400 (ErrorBody ''Username or email already exists''), d1)
       \<and> (\<forall>fault2 p. snd (register x fault2 now2 d1 (Some username2) (Some email2) p) = d1)
       \<and> length (users d1) = Suc (length (users d))
       \<and> (distinct (map u_username (users d)) \<and> distinct (map u_email (users d))
            \<longrightarrow> distinct (map u_username (users d1)) \<and> distinct (map u_email (users d1)))"
proof -
  from register_201[OF assms(1)] obtain user p1 where
    cu: "createUser fault1 now1 d username1 email1 (hex (crypto_sha256 x p1)) = Inr (d1, user)"
    by auto
  from createUser_Inr[OF cu] obtain row where
    row: "users d1 = users d @ [row]" "u_username row = username1" "u_email row = email1"
      "\<not> list_ex (\<lambda>r. u_username r = username1) (users d)"
      "\<not> list_ex (\<lambda>r. u_email r = email1) (users d)" by blast
  from row(1-3) assms(5)
  have taken: "list_ex (\<lambda>r. u_username r = username2 \<or> u_email r = email2) (users d1)"
    by (auto simp: list_ex_iff)
  have 1: "register x None now2 d1 (Some username2) (Some email2) (Str password2)
           = (Json 400 (ErrorBody ''Username or email already exists''), d1)"
    using register_taken[OF assms(2-4) taken] .
  have 2: "\<forall>fault2 p. snd (register x fault2 now2 d1 (Some username2) (Some email2) p) = d1"
    using register_keeps_database[OF taken] by blast
  have 3: "length (users d1) = Suc (length (users d))" using row(1) by simp
  have 4: "distinct (map u_username (users d)) \<and> distinct (map u_email (users d))
            \<longrightarrow> distinct (map u_username (users d1)) \<and> distinct (map u_email (users d1))"
    using row by (auto simp: list_ex_iff)
  from 1 2 3 4 show ?thesis by blast
qed

text \<open>
  Registration with a password that is not a string (a number, \<open>true\<close>, an array, an
  object): the handler hashes the password before it tries the insert, and the hash
  throws. The call is answered 500 with \<open>Registration failed\<close>, whether the username or
  the email is taken or not.
\<close>

lemma register_non_string_password:
  assumes "username \<noteq> []" and "email \<noteq> []"
    and "\<not> falsy_value password" and "\<forall>s. password \<noteq> Str s"
  shows "register x fault now d (Some username) (Some email) password
         = (Json 500 (ErrorBody ''Registration failed''), d)"
proof -
  from assms(4) obtain e where e: "sha256_hex x password = Inl e"
    and m: "message e = ''TypeError: The data argument must be of type string or an instance of Buffer, TypedArray, or DataView''"
    by (cases password) (simp_all add: sha256_hex_def)
  have "\<not> includes_str (message e) ''UNIQUE constraint failed''"
    unfolding m by simp
  with assms(1-3) e show ?thesis
    by (simp add: register_def register_catch_def falsy_def)
qed

text \<open>
  C5 does not hold of the program. \<open>alice\<close> is registered. A second registration with
  her username, another email and the password \<open>123\<close>, a number, is answered 500 with
  \<open>Registration failed\<close>, not with the conflict error: the hash of the password throws
  before the insert is tried, and the \<open>catch\<close> block finds no
  \<open>UNIQUE constraint failed\<close> in the message of the error. With a password that is a
  string the same call is answered 400 with \<open>Username or email already exists\<close>. Neither
  call adds a row.
\<close>

theorem register_taken_username_non_string_password:
  "register example_externals None 50 empty_database
     (Some ''alice'') (Some ''alice@x.com'') (Str ''pw1'')
     = (Json 201 (UserBody 1 ''alice'' ''alice@x.com''), alice_database)
   \<and> register example_externals None 60 alice_database
       (Some ''alice'') (Some ''other@x.com'') (Num 123)
     = (Json 500 (ErrorBody ''Registration failed''), alice_database)
   \<and> register example_externals None 60 alice_database
       (Some ''alice'') (Some ''other@x.com'') (Str ''pw2'')
     = (Json 400 (ErrorBody ''Username or email already exists''), alice_database)"
  by (simp add: register_def register_catch_def falsy_def sha256_hex_def createUser_def
      next_rowid_def example_defs hex_def hex_byte_def hex_digits_def Let_def)


text \<open>
  Login with a password that is a string: a username that has no row, and a username that
  has a row with a password whose digest differs from the stored one, get the same
  response, 401 with \<open>Invalid credentials\<close>.
\<close>

lemma login_string_password_failures:
  assumes "username1 \<noteq> []" and "password1 \<noteq> []" and "username2 \<noteq> []" and "password2 \<noteq> []"
    and "getUserByUsername fault1 d username1 = Inr None"
    and "getUserByUsername fault2 d username2 = Inr (Some user)"
    and "u_password_hash user \<noteq> hex (crypto_sha256 x password2)"
  shows "login x fault1 d (Some username1) (Str password1) = Json 401 (ErrorBody ''Invalid credentials'')
       \<and> login x fault2 d (Some username2) (Str password2)
           = login x fault1 d (Some username1) (Str password1)"
  using assms by (simp add: login_def falsy_def sha256_hex_def)

text \<open>
  Login with a password that is not a string (a number, \<open>true\<close>, an array, an object):
  the handler looks the user up before it hashes the password, and the hash throws. A
  username that has a row is answered 500, a username that has none is answered 401.
\<close>

lemma login_non_string_password:
  assumes "username \<noteq> []" and "\<not> falsy_value password" and "\<forall>s. password \<noteq> Str s"
  shows "login x None d (Some username) password
         = (if list_ex (\<lambda>r. u_username r = username) (users d)
            then Json 500 (ErrorBody ''Login failed'')
            else Json 401 (ErrorBody ''Invalid credentials''))"
proof (cases "find (\<lambda>r. u_username r = username) (users d)")
  case None
  then have "\<not> list_ex (\<lambda>r. u_username r = username) (users d)"
    by (simp add: find_None_iff list_ex_iff)
  with None assms show ?thesis
    by (simp add: login_def falsy_def getUserByUsername_def)
next
  case (Some user)
  then have "list_ex (\<lambda>r. u_username r = username) (users d)"
    by (auto simp: find_Some_iff list_ex_iff)
  moreover from assms(3) have "\<exists>e. sha256_hex x password = Inl e"
    by (cases password) (simp_all add: sha256_hex_def)
  ultimately show ?thesis using Some assms(1,2)
    by (auto simp: login_def falsy_def getUserByUsername_def)
qed

text \<open>
  C6 does not hold of the program. \<open>alice\<close> is registered and \<open>bob\<close> is not. With the
  password \<open>123\<close>, a number, the login of \<open>alice\<close> is answered 500 with
  \<open>Login failed\<close> and the login of \<open>bob\<close> 401 with \<open>Invalid credentials\<close>: the
  response tells whether the username exists. With a wrong password that is a string,
  \<open>alice\<close> gets the response \<open>bob\<close> gets.
\<close>

theorem login_reveals_username_to_non_string_password:
  "login example_externals None alice_database (Some ''alice'') (Num 123)
     = Json 500 (ErrorBody ''Login failed'')
   \<and> login example_externals None alice_database (Some ''bob'') (Num 123)
     = Json 401 (ErrorBody ''Invalid credentials'')
   \<and> login example_externals None alice_database (Some ''alice'') (Str ''wrong'')
     = Json 401 (ErrorBody ''Invalid credentials'')
   \<and> login example_externals None alice_database (Some ''alice'') (Str ''pw1'')
     = Json 200 (UserBody 1 ''alice'' ''alice@x.com'')"
  by (simp add: login_def falsy_def sha256_hex_def getUserByUsername_def example_defs
      hex_def hex_byte_def hex_digits_def)

section \<open>Properties of download and listing\<close>

text \<open>
  C7. A download of a storage name that has no record is answered 404 with
  \<open>File not found\<close>; a download of a storage name that has a record whose file is not on
  the filesystem is answered 404 with \<open>Physical file not found on server\<close>; the two
  responses differ.
\<close>

theorem download_not_found_results:
  assumes "\<not> list_ex (\<lambda>r. f_filename r = unknown) (files d)"
    and "find (\<lambda>r. f_filename r = name) (files d) = Some file"
    and "\<not> existsSync fs (f_file_path file)"
  shows "download x None d fs unknown = Json 404 (ErrorBody ''File not found'')
       \<and> download x None d fs name = Json 404 (ErrorBody ''Physical file not found on server'')
       \<and> download x None d fs name \<noteq> download x None d fs unknown"
proof -
  from assms(1) have "find (\<lambda>r. f_filename r = unknown) (files d) = None"
    by (simp add: find_None_iff list_ex_iff)
  then have a: "download x None d fs unknown = Json 404 (ErrorBody ''File not found'')"
    by (simp add: download_def getFileByFilename_def)
  from assms(2,3) have b: "download x None d fs name = Json 404 (ErrorBody ''Physical file not found on server'')"
    by (simp add: download_def getFileByFilename_def)
  from a b show ?thesis by simp
qed

text \<open>
  The record of \<open>hello.txt\<close> on an empty filesystem, and the same download once the file
  is there.
\<close>

theorem download_not_found_results_witness:
  "\<not> list_ex (\<lambda>r. f_filename r = ''files-0-0.txt'') (files hello_database)
   \<and> find (\<lambda>r. f_filename r = ''files-5-7.txt'') (files hello_database) = Some hello_row
   \<and> \<not> existsSync Map.empty (f_file_path hello_row)
   \<and> download example_externals None hello_database Map.empty ''files-0-0.txt''
       = Json 404 (ErrorBody ''File not found'')
   \<and> download example_externals None hello_database Map.empty ''files-5-7.txt''
       = Json 404 (ErrorBody ''Physical file not found on server'')
   \<and> download example_externals None hello_database hello_fs ''files-5-7.txt''
       = Attachment (content_disposition ''hello.txt'') ''text/plain'' 5
           [0x68, 0x65, 0x6c, 0x6c, 0x6f]"
proof -
  have h1: "\<not> list_ex (\<lambda>r. f_filename r = ''files-0-0.txt'') (files hello_database)"
    by (simp add: example_defs)
  have h2: "find (\<lambda>r. f_filename r = ''files-5-7.txt'') (files hello_database) = Some hello_row"
    by (simp add: example_defs)
  have h3: "\<not> existsSync Map.empty (f_file_path hello_row)"
    by (simp add: existsSync_def)
  have h4: "download example_externals None hello_database hello_fs ''files-5-7.txt''
       = Attachment (content_disposition ''hello.txt'') ''text/plain'' 5
           [0x68, 0x65, 0x6c, 0x6c, 0x6f]"
    by (simp add: download_def getFileByFilename_def existsSync_def readFileSync_def
        content_disposition_def example_defs)
  from download_not_found_results[OF h1 h2 h3] h1 h2 h3 h4 show ?thesis by simp
qed

lemma order_by_uploaded_at_desc_sorted:
  "sorted_wrt (\<lambda>a b. f_uploaded_at b \<le> f_uploaded_at a) (order_by_uploaded_at_desc rows)"
proof -
  have "sorted (map (\<lambda>r. - int (f_uploaded_at r)) (order_by_uploaded_at_desc rows))"
    unfolding order_by_uploaded_at_desc_def by (rule sorted_sort_key)
  then show ?thesis by (simp add: sorted_map)
qed

lemma order_by_uploaded_at_desc_mset:
  "mset (order_by_uploaded_at_desc rows) = mset rows"
  by (simp add: order_by_uploaded_at_desc_def)

text \<open>
  C8 (amended). For every user id \<open>getFilesByUserId\<close> returns the file records of that
  user, each once, in the order of their stored \<open>uploaded_at\<close>, latest first.
  \<open>uploaded_at\<close> is \<open>CURRENT_TIMESTAMP\<close>, which counts whole seconds: two uploads
  recorded in different seconds are listed newest first, and the statement does not order
  two uploads recorded in the same second.
\<close>

theorem getFilesByUserId_sorted_by_timestamp:
  "getFilesByUserId None d (Some userId)
     = Inr (order_by_uploaded_at_desc (filter (\<lambda>r. f_user_id r = SqlInteger userId) (files d)))
   \<and> (\<forall>rows. getFilesByUserId None d (Some userId) = Inr rows \<longrightarrow>
         mset rows = filter_mset (\<lambda>r. f_user_id r = SqlInteger userId) (mset (files d))
         \<and> sorted_wrt (\<lambda>a b. f_uploaded_at b \<le> f_uploaded_at a) rows)"
proof -
  have eq: "(\<lambda>r. SqlInteger userId = f_user_id r) = (\<lambda>r. f_user_id r = SqlInteger userId)"
    by auto
  have 1: "getFilesByUserId None d (Some userId)
     = Inr (order_by_uploaded_at_desc (filter (\<lambda>r. f_user_id r = SqlInteger userId) (files d)))"
    by (simp add: getFilesByUserId_def eq)
  show ?thesis
    unfolding 1 by (auto simp: order_by_uploaded_at_desc_mset order_by_uploaded_at_desc_sorted)
qed

text \<open>Two uploads one second apart are listed newest first.\<close>

theorem getFilesByUserId_sorted_by_timestamp_witness:
  "getFilesByUserId None
     (hello_database\<lparr>files := [hello_row, a_row\<lparr>f_uploaded_at := 101\<rparr>], files_seq := 2\<rparr>)
     (Some 1)
   = Inr [a_row\<lparr>f_uploaded_at := 101\<rparr>, hello_row]
   \<and> sorted_wrt (\<lambda>a b. f_uploaded_at b \<le> f_uploaded_at a)
       [a_row\<lparr>f_uploaded_at := 101\<rparr>, hello_row]"
proof -
  have h: "getFilesByUserId None
     (hello_database\<lparr>files := [hello_row, a_row\<lparr>f_uploaded_at := 101\<rparr>], files_seq := 2\<rparr>)
     (Some 1)
   = Inr [a_row\<lparr>f_uploaded_at := 101\<rparr>, hello_row]"
    by (simp add: getFilesByUserId_def order_by_uploaded_at_desc_def example_defs)
  from getFilesByUserId_sorted_by_timestamp
    [of "hello_database\<lparr>files := [hello_row, a_row\<lparr>f_uploaded_at := 101\<rparr>], files_seq := 2\<rparr>" 1]
  have "\<forall>rows. getFilesByUserId None
     (hello_database\<lparr>files := [hello_row, a_row\<lparr>f_uploaded_at := 101\<rparr>], files_seq := 2\<rparr>)
     (Some 1) = Inr rows \<longrightarrow> sorted_wrt (\<lambda>a b. f_uploaded_at b \<le> f_uploaded_at a) rows"
    by blast
  with h have "sorted_wrt (\<lambda>a b. f_uploaded_at b \<le> f_uploaded_at a)
       [a_row\<lparr>f_uploaded_at := 101\<rparr>, hello_row]" by blast
  with h show ?thesis by blast
qed

text \<open>
  C8 as stated fails: two sequential uploads of user 1 whose inserts run in the same
  second are listed with the older record first.
\<close>

theorem same_second_uploads_listed_oldest_first:
  "createFile None 100 example_externals alice_database ''1'' ''hello.txt'' ''files-5-7.txt''
     ''uploads/files-5-7.txt'' 5 ''text/plain'' ''5d41402abc4b2a76b9719d911017c592''
     = Inr (hello_database,
            \<lparr>nf_id = 1, nf_userId = ''1'', nf_originalName = ''hello.txt'',
              nf_filename = ''files-5-7.txt'', nf_filePath = ''uploads/files-5-7.txt'',
              nf_fileSize = 5, nf_mimeType = ''text/plain'',
              nf_fileHash = ''5d41402abc4b2a76b9719d911017c592''\<rparr>)
   \<and> createFile None 100 example_externals hello_database ''1'' ''a.txt'' ''files-5-8.txt''
       ''uploads/files-5-8.txt'' 1 ''text/plain'' ''0cc175b9c0f1b6a831c399e269772661''
     = Inr (hello_database\<lparr>files := [hello_row, a_row], files_seq := 2\<rparr>,
            \<lparr>nf_id = 2, nf_userId = ''1'', nf_originalName = ''a.txt'',
              nf_filename = ''files-5-8.txt'', nf_filePath = ''uploads/files-5-8.txt'',
              nf_fileSize = 1, nf_mimeType = ''text/plain'',
              nf_fileHash = ''0cc175b9c0f1b6a831c399e269772661''\<rparr>)
   \<and> getFilesByUserId None (hello_database\<lparr>files := [hello_row, a_row], files_seq := 2\<rparr>)
       (Some 1)
     = Inr [hello_row, a_row]"
  by (simp add: createFile_def getFilesByUserId_def order_by_uploaded_at_desc_def next_rowid_def
      example_defs Let_def)

section \<open>Properties of upload\<close>

lemma createFile_Inr:
  assumes "createFile fault now x d userId originalName fname filePath fileSize mimeType fileHash
             = Inr (d', dbFile)"
  shows "users d' = users d \<and>
         (\<exists>row. files d' = files d @ [row] \<and> f_id row = nf_id dbFile
            \<and> f_original_name row = originalName \<and> f_filename row = fname
            \<and> f_file_path row = filePath \<and> f_file_size row = fileSize
            \<and> f_mime_type row = mimeType \<and> f_file_hash row = Some fileHash
            \<and> f_uploaded_at row = now)"
  using assms by (auto simp: createFile_def Let_def split: option.splits if_splits)

lemma readFileSync_Inr: "readFileSync fs p = Inr buf \<longleftrightarrow> fs p = Some (File buf)"
  by (auto simp: readFileSync_def split: option.splits node.splits)

lemma upload_file_Inr:
  assumes "upload_file x e d fs userId file = Inr (d', desc)"
  shows "users d' = users d \<and>
         (\<exists>row buf. files d' = files d @ [row] \<and> fs (path file) = Some (File buf)
            \<and> f_file_hash row = Some (hex (crypto_md5 x buf))
            \<and> ud_hash desc = hex (crypto_md5 x buf)
            \<and> f_file_path row = path file \<and> f_filename row = filename file
            \<and> f_original_name row = originalname file \<and> f_file_size row = fsize file
            \<and> f_mime_type row = mimetype file \<and> f_uploaded_at row = current_timestamp e
            \<and> ud_id desc = f_id row \<and> ud_originalName desc = originalname file
            \<and> ud_filename desc = filename file \<and> ud_size desc = fsize file
            \<and> ud_mimetype desc = mimetype file \<and> ud_uploadedAt desc = new_date e)"
proof -
  from assms obtain buf dbFile where
    buf: "readFileSync fs (path file) = Inr buf"
    and cf: "createFile (insert_fault e) (current_timestamp e) x d userId (originalname file)
               (filename file) (path file) (fsize file) (mimetype file) (hex (crypto_md5 x buf))
             = Inr (d', dbFile)"
    and desc: "desc = \<lparr>ud_id = nf_id dbFile, ud_originalName = originalname file,
                       ud_filename = filename file, ud_size = fsize file,
                       ud_mimetype = mimetype file, ud_hash = hex (crypto_md5 x buf),
                       ud_uploadedAt = new_date e\<rparr>"
    by (auto simp: upload_file_def Let_def split: sum.splits prod.splits)
  from createFile_Inr[OF cf] buf desc show ?thesis
    by (auto simp: readFileSync_Inr)
qed

lemma upload_loop_Inr:
  assumes "upload_loop x env i d fs userId fl acc = (Inr descs, d')"
  shows "users d' = users d \<and>
         (\<exists>rows new. files d' = files d @ rows \<and> descs = acc @ new
            \<and> length rows = length fl \<and> length new = length fl
            \<and> (\<forall>j<length fl. \<exists>buf. fs (path (fl ! j)) = Some (File buf)
                 \<and> f_file_hash (rows ! j) = Some (hex (crypto_md5 x buf))
                 \<and> ud_hash (new ! j) = hex (crypto_md5 x buf)
                 \<and> f_file_path (rows ! j) = path (fl ! j)
                 \<and> f_filename (rows ! j) = filename (fl ! j)
                 \<and> f_original_name (rows ! j) = originalname (fl ! j)
                 \<and> f_file_size (rows ! j) = fsize (fl ! j)
                 \<and> f_mime_type (rows ! j) = mimetype (fl ! j)
                 \<and> f_uploaded_at (rows ! j) = current_timestamp (env (i + j))
                 \<and> ud_id (new ! j) = f_id (rows ! j)
                 \<and> ud_originalName (new ! j) = originalname (fl ! j)
                 \<and> ud_filename (new ! j) = filename (fl ! j)
                 \<and> ud_size (new ! j) = fsize (fl ! j)
                 \<and> ud_mimetype (new ! j) = mimetype (fl ! j)
                 \<and> ud_uploadedAt (new ! j) = new_date (env (i + j))))"
  using assms
proof (induction fl arbitrary: i d acc)
  case Nil
  then show ?case by simp
next
  case (Cons f0 rest)
  from Cons.prems obtain d1 desc where
    step: "upload_file x (env i) d fs userId f0 = Inr (d1, desc)"
    and rest: "upload_loop x env (Suc i) d1 fs userId rest (acc @ [desc]) = (Inr descs, d')"
    by (auto split: sum.splits prod.splits)
  from upload_file_Inr[OF step] obtain row buf where
    u1: "users d1 = users d" and f1: "files d1 = files d @ [row]"
    and one: "fs (path f0) = Some (File buf)"
      "f_file_hash row = Some (hex (crypto_md5 x buf))"
      "ud_hash desc = hex (crypto_md5 x buf)"
      "f_file_path row = path f0" "f_filename row = filename f0"
      "f_original_name row = originalname f0" "f_file_size row = fsize f0"
      "f_mime_type row = mimetype f0" "f_uploaded_at row = current_timestamp (env i)"
      "ud_id desc = f_id row" "ud_originalName desc = originalname f0"
      "ud_filename desc = filename f0" "ud_size desc = fsize f0"
      "ud_mimetype desc = mimetype f0" "ud_uploadedAt desc = new_date (env i)"
    by blast
  from Cons.IH[OF rest] obtain rows new where
    u2: "users d' = users d1" and f2: "files d' = files d1 @ rows"
    and d2: "descs = (acc @ [desc]) @ new"
    and len: "length rows = length rest" "length new = length rest"
    and all: "\<forall>j<length rest. \<exists>buf. fs (path (rest ! j)) = Some (File buf)
                 \<and> f_file_hash (rows ! j) = Some (hex (crypto_md5 x buf))
                 \<and> ud_hash (new ! j) = hex (crypto_md5 x buf)
                 \<and> f_file_path (rows ! j) = path (rest ! j)
                 \<and> f_filename (rows ! j) = filename (rest ! j)
                 \<and> f_original_name (rows ! j) = originalname (rest ! j)
                 \<and> f_file_size (rows ! j) = fsize (rest ! j)
                 \<and> f_mime_type (rows ! j) = mimetype (rest ! j)
                 \<and> f_uploaded_at (rows ! j) = current_timestamp (env (Suc i + j))
                 \<and> ud_id (new ! j) = f_id (rows ! j)
                 \<and> ud_originalName (new ! j) = originalname (rest ! j)
                 \<and> ud_filename (new ! j) = filename (rest ! j)
                 \<and> ud_size (new ! j) = fsize (rest ! j)
                 \<and> ud_mimetype (new ! j) = mimetype (rest ! j)
                 \<and> ud_uploadedAt (new ! j) = new_date (env (Suc i + j))"
    by blast
  have "\<forall>j<length (f0 # rest). \<exists>buf. fs (path ((f0 # rest) ! j)) = Some (File buf)
                 \<and> f_file_hash ((row # rows) ! j) = Some (hex (crypto_md5 x buf))
                 \<and> ud_hash ((desc # new) ! j) = hex (crypto_md5 x buf)
                 \<and> f_file_path ((row # rows) ! j) = path ((f0 # rest) ! j)
                 \<and> f_filename ((row # rows) ! j) = filename ((f0 # rest) ! j)
                 \<and> f_original_name ((row # rows) ! j) = originalname ((f0 # rest) ! j)
                 \<and> f_file_size ((row # rows) ! j) = fsize ((f0 # rest) ! j)
                 \<and> f_mime_type ((row # rows) ! j) = mimetype ((f0 # rest) ! j)
                 \<and> f_uploaded_at ((row # rows) ! j) = current_timestamp (env (i + j))
                 \<and> ud_id ((desc # new) ! j) = f_id ((row # rows) ! j)
                 \<and> ud_originalName ((desc # new) ! j) = originalname ((f0 # rest) ! j)
                 \<and> ud_filename ((desc # new) ! j) = filename ((f0 # rest) ! j)
                 \<and> ud_size ((desc # new) ! j) = fsize ((f0 # rest) ! j)
                 \<and> ud_mimetype ((desc # new) ! j) = mimetype ((f0 # rest) ! j)
                 \<and> ud_uploadedAt ((desc # new) ! j) = new_date (env (i + j))"
  proof (intro allI impI)
    fix j assume "j < length (f0 # rest)"
    then show "\<exists>buf. fs (path ((f0 # rest) ! j)) = Some (File buf)
                 \<and> f_file_hash ((row # rows) ! j) = Some (hex (crypto_md5 x buf))
                 \<and> ud_hash ((desc # new) ! j) = hex (crypto_md5 x buf)
                 \<and> f_file_path ((row # rows) ! j) = path ((f0 # rest) ! j)
                 \<and> f_filename ((row # rows) ! j) = filename ((f0 # rest) ! j)
                 \<and> f_original_name ((row # rows) ! j) = originalname ((f0 # rest) ! j)
                 \<and> f_file_size ((row # rows) ! j) = fsize ((f0 # rest) ! j)
                 \<and> f_mime_type ((row # rows) ! j) = mimetype ((f0 # rest) ! j)
                 \<and> f_uploaded_at ((row # rows) ! j) = current_timestamp (env (i + j))
                 \<and> ud_id ((desc # new) ! j) = f_id ((row # rows) ! j)
                 \<and> ud_originalName ((desc # new) ! j) = originalname ((f0 # rest) ! j)
                 \<and> ud_filename ((desc # new) ! j) = filename ((f0 # rest) ! j)
                 \<and> ud_size ((desc # new) ! j) = fsize ((f0 # rest) ! j)
                 \<and> ud_mimetype ((desc # new) ! j) = mimetype ((f0 # rest) ! j)
                 \<and> ud_uploadedAt ((desc # new) ! j) = new_date (env (i + j))"
    proof (cases j)
      case 0
      with one show ?thesis by simp
    next
      case (Suc k)
      with \<open>j < length (f0 # rest)\<close> have "k < length rest" by simp
      with all Suc show ?thesis by simp
    qed
  qed
  moreover have "files d' = files d @ (row # rows)" using f1 f2 by simp
  moreover have "descs = acc @ (desc # new)" using d2 by simp
  moreover have "length (row # rows) = length (f0 # rest)" "length (desc # new) = length (f0 # rest)"
    using len by simp_all
  moreover have "users d' = users d" using u1 u2 by simp
  ultimately show ?case by blast
qed

lemma upload_loop_fails_at:
  assumes "n < length fl"
    and "upload_loop x env i d fs userId (take n fl) acc = (Inr descs, dn)"
    and "upload_file x (env (i + n)) dn fs userId (fl ! n) = Inl err"
  shows "upload_loop x env i d fs userId fl acc = (Inl err, dn)"
  using assms
proof (induction fl arbitrary: n i d acc)
  case Nil
  then show ?case by simp
next
  case (Cons f0 rest)
  show ?case
  proof (cases n)
    case 0
    with Cons.prems show ?thesis by simp
  next
    case (Suc k)
    with Cons.prems(2) obtain d1 desc where
      step: "upload_file x (env i) d fs userId f0 = Inr (d1, desc)"
      and pre: "upload_loop x env (Suc i) d1 fs userId (take k rest) (acc @ [desc]) = (Inr descs, dn)"
      by (auto split: sum.splits prod.splits)
    from Cons.prems(1,3) Suc have "k < length rest"
      and "upload_file x (env (Suc i + k)) dn fs userId (rest ! k) = Inl err" by simp_all
    from Cons.IH[OF this(1) pre this(2)] step show ?thesis by simp
  qed
qed

lemma upload_loop_Inr_paths:
  assumes "upload_loop x env i d fs userId fl acc = (Inr descs, d')"
  shows "users d' = users d \<and>
         (\<exists>rows. files d' = files d @ rows \<and> map f_file_path rows = map path fl
                 \<and> map f_filename rows = map filename fl)"
proof -
  from upload_loop_Inr[OF assms] obtain rows new where
    r: "users d' = users d" "files d' = files d @ rows" "length rows = length fl"
    and all: "\<forall>j<length fl. f_file_path (rows ! j) = path (fl ! j)
                \<and> f_filename (rows ! j) = filename (fl ! j)"
    by blast
  from r(3) all have "map f_file_path rows = map path fl" "map f_filename rows = map filename fl"
    by (auto intro: nth_equalityI)
  with r show ?thesis by blast
qed

lemma upload_file_other_clock:
  assumes "insert_fault e' = insert_fault e" and "current_timestamp e' = current_timestamp e"
  shows "upload_file x e' d fs userId f0 =
           (case upload_file x e d fs userId f0 of
              Inl err \<Rightarrow> Inl err
            | Inr (d1, desc) \<Rightarrow> Inr (d1, desc\<lparr>ud_uploadedAt := new_date e'\<rparr>))"
  using assms by (simp add: upload_file_def Let_def split: sum.splits prod.splits)

lemma upload_loop_other_clock:
  assumes "\<forall>k. insert_fault (env' k) = insert_fault (env k)
             \<and> current_timestamp (env' k) = current_timestamp (env k)"
    and "upload_loop x env i d fs userId fl acc = (Inr descs, d')"
  shows "\<exists>descs'. upload_loop x env' i d fs userId fl acc' = (Inr descs', d')"
  using assms(2)
proof (induction fl arbitrary: i d acc acc' descs)
  case Nil
  then show ?case by simp
next
  case (Cons f0 rest)
  from Cons.prems obtain d1 desc where
    step: "upload_file x (env i) d fs userId f0 = Inr (d1, desc)"
    and rest: "upload_loop x env (Suc i) d1 fs userId rest (acc @ [desc]) = (Inr descs, d')"
    by (auto split: sum.splits prod.splits)
  from assms(1) have "insert_fault (env' i) = insert_fault (env i)"
    "current_timestamp (env' i) = current_timestamp (env i)" by simp_all
  from upload_file_other_clock[OF this] step
  have step': "upload_file x (env' i) d fs userId f0
         = Inr (d1, desc\<lparr>ud_uploadedAt := new_date (env' i)\<rparr>)" by simp
  from Cons.IH[OF rest, of "acc' @ [desc\<lparr>ud_uploadedAt := new_date (env' i)\<rparr>]"] step'
  show ?case by simp
qed

lemma upload_handler_201:
  assumes "upload_handler x env fault d fs userId (Some fl) = (Json 201 (UploadBody m descs), d')"
  shows "m = ''Files uploaded successfully'' \<and>
         (\<exists>u user. userId = Some u \<and> u \<noteq> [] \<and> fl \<noteq> []
            \<and> getUserById fault x d (Text u) = Inr (Some user)
            \<and> upload_loop x env 0 d fs u fl [] = (Inr descs, d'))"
  using assms
  by (auto simp: upload_handler_def falsy_def split: option.splits if_splits sum.splits prod.splits)

lemma upload_handler_success:
  assumes "u \<noteq> []" and "fl \<noteq> []" and "getUserById fault x d (Text u) = Inr (Some user)"
    and "upload_loop x env 0 d fs u fl [] = (Inr descs, d')"
  shows "upload_handler x env fault d fs (Some u) (Some fl)
           = (Json 201 (UploadBody ''Files uploaded successfully'' descs), d')"
  using assms by (simp add: upload_handler_def falsy_def)

lemma handle_parts_accepts:
  assumes "handle_parts x cfg env i fs (p # ps) stored = Inr (stored', fs')"
  shows "maxFileSize cfg \<ge> length (content p) \<and>
         handle_parts x cfg env (Suc i)
           (createWriteStream_pipe fs (path_join x (uploadPath cfg) (storage_filename x (env i) p))
              (path_join x (uploadPath cfg) (storage_filename x (env i) p) \<in> set (map path stored))
              (content p))
           ps
           (stored @ [\<lparr>fieldname = fieldname p, originalname = originalname p,
                        mimetype = mimetype p, destination = uploadPath cfg,
                        filename = storage_filename x (env i) p,
                        path = path_join x (uploadPath cfg) (storage_filename x (env i) p),
                        fsize = length (content p)\<rparr>])
         = Inr (stored', fs')"
proof -
  from assms obtain b where b: "fileFilter p = Inr b"
    by (auto split: if_splits sum.splits)
  from fileFilter_Inr[OF b] have "b" .
  with assms b show ?thesis
    by (simp add: Let_def split: if_splits)
qed

lemma handle_parts_step:
  assumes "handle_parts x cfg env i fs (p # ps) stored = Inr (stored', fs')"
  shows "\<exists>f0 buf. path f0 = path_join x (uploadPath cfg) (storage_filename x (env i) p)
           \<and> filename f0 = storage_filename x (env i) p
           \<and> originalname f0 = originalname p \<and> mimetype f0 = mimetype p
           \<and> fsize f0 = length (content p)
           \<and> (path f0 \<notin> set (map path stored) \<longrightarrow> buf = content p)
           \<and> handle_parts x cfg env (Suc i) (fs(path f0 \<mapsto> File buf)) ps (stored @ [f0])
               = Inr (stored', fs')"
proof -
  let ?q = "path_join x (uploadPath cfg) (storage_filename x (env i) p)"
  let ?f = "\<lparr>fieldname = fieldname p, originalname = originalname p,
             mimetype = mimetype p, destination = uploadPath cfg,
             filename = storage_filename x (env i) p, path = ?q,
             fsize = length (content p)\<rparr>"
  obtain buf where buf: "createWriteStream_pipe fs ?q (?q \<in> set (map path stored)) (content p)
                     = fs(?q \<mapsto> File buf)"
    and fresh: "?q \<notin> set (map path stored) \<longrightarrow> buf = content p"
    by (simp add: createWriteStream_pipe_def Let_def)
  from handle_parts_accepts[OF assms] buf
  have "handle_parts x cfg env (Suc i) (fs(path ?f \<mapsto> File buf)) ps (stored @ [?f])
          = Inr (stored', fs')" by simp
  with fresh show ?thesis
    by (intro exI[where x="?f"] exI[where x=buf]) simp
qed

lemma handle_parts_extends:
  assumes "handle_parts x cfg env i fs ps stored = Inr (stored', fs')"
  shows "\<exists>new. stored' = stored @ new \<and> length new = length ps"
  using assms
proof (induction ps arbitrary: i fs stored)
  case Nil
  then show ?case by simp
next
  case (Cons p ps)
  from handle_parts_step[OF Cons.prems] obtain f0 buf where
    "handle_parts x cfg env (Suc i) (fs(path f0 \<mapsto> File buf)) ps (stored @ [f0]) = Inr (stored', fs')"
    by blast
  from Cons.IH[OF this] show ?case by auto
qed

lemma handle_parts_on_disk:
  assumes "handle_parts x cfg env i fs ps stored = Inr (stored', fs')"
    and "\<forall>f\<in>set stored. \<exists>buf. fs (path f) = Some (File buf)"
  shows "\<forall>f\<in>set stored'. \<exists>buf. fs' (path f) = Some (File buf)"
  using assms
proof (induction ps arbitrary: i fs stored)
  case Nil
  then show ?case by simp
next
  case (Cons p ps)
  from handle_parts_step[OF Cons.prems(1)] obtain f0 buf where
    rec: "handle_parts x cfg env (Suc i) (fs(path f0 \<mapsto> File buf)) ps (stored @ [f0]) = Inr (stored', fs')"
    by blast
  have "\<forall>f\<in>set (stored @ [f0]). \<exists>b. (fs(path f0 \<mapsto> File buf)) (path f) = Some (File b)"
    using Cons.prems(2) by auto
  from Cons.IH[OF rec this] show ?case .
qed

lemma handle_parts_files:
  assumes "handle_parts x cfg env i fs ps stored = Inr (stored', fs')"
  shows "\<exists>new. stored' = stored @ new \<and> length new = length ps
           \<and> (\<forall>j<length ps. fsize (new ! j) = length (content (ps ! j))
                \<and> originalname (new ! j) = originalname (ps ! j)
                \<and> mimetype (new ! j) = mimetype (ps ! j)
                \<and> filename (new ! j) = storage_filename x (env (i + j)) (ps ! j)
                \<and> path (new ! j)
                    = path_join x (uploadPath cfg) (storage_filename x (env (i + j)) (ps ! j)))"
  using assms
proof (induction ps arbitrary: i fs stored)
  case Nil
  then show ?case by simp
next
  case (Cons p ps)
  from handle_parts_step[OF Cons.prems] obtain f0 buf where
    f0: "path f0 = path_join x (uploadPath cfg) (storage_filename x (env i) p)"
      "filename f0 = storage_filename x (env i) p"
      "originalname f0 = originalname p" "mimetype f0 = mimetype p"
      "fsize f0 = length (content p)"
    and rec: "handle_parts x cfg env (Suc i) (fs(path f0 \<mapsto> File buf)) ps (stored @ [f0])
                = Inr (stored', fs')"
    by blast
  from Cons.IH[OF rec] obtain new where
    new: "stored' = (stored @ [f0]) @ new" "length new = length ps"
    and all: "\<forall>j<length ps. fsize (new ! j) = length (content (ps ! j))
                \<and> originalname (new ! j) = originalname (ps ! j)
                \<and> mimetype (new ! j) = mimetype (ps ! j)
                \<and> filename (new ! j) = storage_filename x (env (Suc i + j)) (ps ! j)
                \<and> path (new ! j)
                    = path_join x (uploadPath cfg) (storage_filename x (env (Suc i + j)) (ps ! j))"
    by blast
  have "\<forall>j<length (p # ps). fsize ((f0 # new) ! j) = length (content ((p # ps) ! j))
                \<and> originalname ((f0 # new) ! j) = originalname ((p # ps) ! j)
                \<and> mimetype ((f0 # new) ! j) = mimetype ((p # ps) ! j)
                \<and> filename ((f0 # new) ! j) = storage_filename x (env (i + j)) ((p # ps) ! j)
                \<and> path ((f0 # new) ! j)
                    = path_join x (uploadPath cfg) (storage_filename x (env (i + j)) ((p # ps) ! j))"
  proof (intro allI impI)
    fix j assume j: "j < length (p # ps)"
    show "fsize ((f0 # new) ! j) = length (content ((p # ps) ! j))
                \<and> originalname ((f0 # new) ! j) = originalname ((p # ps) ! j)
                \<and> mimetype ((f0 # new) ! j) = mimetype ((p # ps) ! j)
                \<and> filename ((f0 # new) ! j) = storage_filename x (env (i + j)) ((p # ps) ! j)
                \<and> path ((f0 # new) ! j)
                    = path_join x (uploadPath cfg) (storage_filename x (env (i + j)) ((p # ps) ! j))"
    proof (cases j)
      case 0
      with f0 show ?thesis by simp
    next
      case (Suc k)
      with j have "k < length ps" by simp
      with all Suc show ?thesis by simp
    qed
  qed
  moreover have "stored' = stored @ (f0 # new)" using new by simp
  moreover have "length (f0 # new) = length (p # ps)" using new by simp
  ultimately show ?case by blast
qed

lemma handle_parts_bytes:
  assumes "handle_parts x cfg env i fs ps stored = Inr (stored', fs')"
    and "distinct (map path stored')"
    and "list_all2 (\<lambda>f c. fs (path f) = Some (File c)) stored cs"
  shows "list_all2 (\<lambda>f c. fs' (path f) = Some (File c)) stored' (cs @ map content ps)"
  using assms
proof (induction ps arbitrary: i fs stored cs)
  case Nil
  then show ?case by simp
next
  case (Cons p ps)
  from handle_parts_step[OF Cons.prems(1)] obtain f0 buf where
    fresh: "path f0 \<notin> set (map path stored) \<longrightarrow> buf = content p"
    and rec: "handle_parts x cfg env (Suc i) (fs(path f0 \<mapsto> File buf)) ps (stored @ [f0])
                = Inr (stored', fs')"
    by blast
  from handle_parts_extends[OF rec] obtain new where "stored' = (stored @ [f0]) @ new" by blast
  with Cons.prems(2) have notin: "path f0 \<notin> set (map path stored)" by simp
  with fresh have buf: "buf = content p" by simp
  from notin have "\<forall>f\<in>set stored. path f \<noteq> path f0" by (metis image_eqI set_map)
  with Cons.prems(3)
  have "list_all2 (\<lambda>f c. (fs(path f0 \<mapsto> File buf)) (path f) = Some (File c)) stored cs"
    by (auto simp: list_all2_conv_all_nth)
  with buf
  have "list_all2 (\<lambda>f c. (fs(path f0 \<mapsto> File buf)) (path f) = Some (File c))
          (stored @ [f0]) (cs @ [content p])"
    by (simp add: list_all2_appendI)
  from Cons.IH[OF rec Cons.prems(2) this] show ?case by simp
qed

lemma multer_array_Inr:
  assumes "multer_array x cfg env fs parts = Inr (stored, fs')"
  shows "handle_parts x cfg env 0 fs parts [] = Inr (stored, fs')"
  using assms by (auto simp: multer_array_def split: sum.splits prod.splits)





text \<open>
  C1 (amended). When the user is known and file \<open>n\<close> of the batch fails its step, the
  hash or the insert, after the files before it were recorded, the request is answered
  500 with \<open>File upload failed\<close>; no record is made for file \<open>n\<close> or for a later file, and
  the records of the \<open>n\<close> earlier files of the batch stay in the database. Nothing in the
  program removes a record.
\<close>

theorem upload_failure_keeps_earlier_records:
  assumes "userId \<noteq> []"
    and "getUserById fault x d (Text userId) = Inr (Some user)"
    and "n < length fl"
    and "upload_loop x env 0 d fs userId (take n fl) [] = (Inr descs, dn)"
    and "upload_file x (env n) dn fs userId (fl ! n) = Inl err"
  shows "upload_handler x env fault d fs (Some userId) (Some fl)
           = (Json 500 (ErrorBody ''File upload failed''), dn)
       \<and> users dn = users d
       \<and> (\<exists>rows. files dn = files d @ rows
             \<and> map f_file_path rows = map path (take n fl)
             \<and> map f_filename rows = map filename (take n fl))"
proof -
  from assms(3) have ne: "fl \<noteq> []" by auto
  from upload_loop_fails_at[OF assms(3), of x env 0 d fs userId "[]" descs dn err] assms(4,5)
  have "upload_loop x env 0 d fs userId fl [] = (Inl err, dn)" by simp
  with assms(1,2) ne
  have "upload_handler x env fault d fs (Some userId) (Some fl)
           = (Json 500 (ErrorBody ''File upload failed''), dn)"
    by (simp add: upload_handler_def falsy_def)
  with upload_loop_Inr_paths[OF assms(4)] show ?thesis by simp
qed

text \<open>The second of two files is missing from the disk when it is to be hashed.\<close>

theorem upload_failure_keeps_earlier_records_witness:
  "''1'' \<noteq> []
   \<and> getUserById None example_externals alice_database (Text ''1'') = Inr (Some alice)
   \<and> (1::nat) < length [hello_file, a_file]
   \<and> upload_loop example_externals example_env 0 alice_database hello_fs ''1''
        (take 1 [hello_file, a_file]) []
      = (Inr [\<lparr>ud_id = 1, ud_originalName = ''hello.txt'', ud_filename = ''files-5-7.txt'',
              ud_size = 5, ud_mimetype = ''text/plain'',
              ud_hash = ''5d41402abc4b2a76b9719d911017c592'', ud_uploadedAt = 100250\<rparr>],
         hello_database)
   \<and> upload_file example_externals (example_env 1) hello_database hello_fs ''1''
        ([hello_file, a_file] ! 1)
      = Inl (JsError ''ENOENT: no such file or directory, open uploads/files-5-8.txt'')
   \<and> upload_handler example_externals example_env None alice_database hello_fs
        (Some ''1'') (Some [hello_file, a_file])
      = (Json 500 (ErrorBody ''File upload failed''), hello_database)
   \<and> files hello_database = files alice_database @ [hello_row]
   \<and> map f_file_path [hello_row] = map path (take 1 [hello_file, a_file])"
proof -
  have h1: "''1'' \<noteq> []" by simp
  have h2: "getUserById None example_externals alice_database (Text ''1'') = Inr (Some alice)"
    by (simp add: example_defs getUserById_def)
  have h3: "(1::nat) < length [hello_file, a_file]" by simp
  have h4: "upload_loop example_externals example_env 0 alice_database hello_fs ''1''
        (take 1 [hello_file, a_file]) []
      = (Inr [\<lparr>ud_id = 1, ud_originalName = ''hello.txt'', ud_filename = ''files-5-7.txt'',
              ud_size = 5, ud_mimetype = ''text/plain'',
              ud_hash = ''5d41402abc4b2a76b9719d911017c592'', ud_uploadedAt = 100250\<rparr>],
         hello_database)"
    by (simp add: example_defs upload_defs)
  have h5: "upload_file example_externals (example_env 1) hello_database hello_fs ''1''
        ([hello_file, a_file] ! 1)
      = Inl (JsError ''ENOENT: no such file or directory, open uploads/files-5-8.txt'')"
    by (simp add: example_defs upload_defs)
  have h6: "files hello_database = files alice_database @ [hello_row]"
    "map f_file_path [hello_row] = map path (take 1 [hello_file, a_file])"
    by (simp_all add: example_defs)
  from upload_failure_keeps_earlier_records[OF h1 h2 h3 h4 h5] h1 h2 h3 h4 h5 h6
  show ?thesis by blast
qed

text \<open>
  C1 as stated fails: in a batch of two files the insert of the second fails (the
  database is full), or the second file cannot be read; the request is answered 500 and
  the record of the first file remains.
\<close>

theorem failed_batch_keeps_first_record:
  "upload_route example_externals example_config full_disk_env None alice_database Map.empty
     (Some ''1'') [hello_part, a_part]
   = (Json 500 (ErrorBody ''File upload failed''), hello_database,
      hello_fs(''uploads/files-5-8.txt'' \<mapsto> File [0x61]))
   \<and> upload_handler example_externals example_env None alice_database hello_fs
       (Some ''1'') (Some [hello_file, a_file])
     = (Json 500 (ErrorBody ''File upload failed''), hello_database)
   \<and> files hello_database = [hello_row]"
  by (simp add: example_defs filter_defs upload_defs)

text \<open>
  C2 (amended). When the user identifier is missing, empty or does not resolve to a user,
  the request creates no record and the database is unchanged. The upload middleware has
  run before the handler looks at the identifier: if it refused the batch the answer is
  500 with \<open>Internal server error\<close>; otherwise the answer is 400 with
  \<open>User ID is required\<close> or 401 with \<open>Invalid user\<close>, every file part of the request has
  been stored, and each stored file is on the disk when the request ends.
\<close>

theorem upload_rejection_leaves_files:
  assumes "falsy userId \<or> (\<exists>u. userId = Some u \<and> getUserById fault x d (Text u) = Inr None)"
  shows "case multer_array x cfg env fs parts of
           Inl (err, fs') \<Rightarrow>
             upload_route x cfg env fault d fs userId parts
               = (Json 500 (ErrorBody ''Internal server error''), d, fs')
         | Inr (stored, fs') \<Rightarrow>
             upload_route x cfg env fault d fs userId parts
               = (if falsy userId then Json 400 (ErrorBody ''User ID is required'')
                  else Json 401 (ErrorBody ''Invalid user''), d, fs')
             \<and> length stored = length parts
             \<and> list_all (\<lambda>f. \<exists>buf. fs' (path f) = Some (File buf)) stored"
proof (cases "multer_array x cfg env fs parts")
  case (Inl a)
  then show ?thesis by (cases a) (simp add: upload_route_def)
next
  case (Inr b)
  obtain stored fs' where b: "b = (stored, fs')" by (cases b)
  with Inr have m: "multer_array x cfg env fs parts = Inr (stored, fs')" by simp
  have h: "upload_handler x env fault d fs' userId (Some stored)
        = (if falsy userId then Json 400 (ErrorBody ''User ID is required'')
           else Json 401 (ErrorBody ''Invalid user''), d)"
    using assms by (auto simp: upload_handler_def falsy_def split: option.splits)
  from handle_parts_extends[OF multer_array_Inr[OF m]] have len: "length stored = length parts"
    by auto
  from handle_parts_on_disk[OF multer_array_Inr[OF m]]
  have "list_all (\<lambda>f. \<exists>buf. fs' (path f) = Some (File buf)) stored"
    by (simp add: list_all_iff)
  with m h len show ?thesis by (simp add: upload_route_def)
qed

text \<open>A request with one file and no user identifier.\<close>

theorem upload_rejection_leaves_files_witness:
  "falsy None
   \<and> multer_array example_externals example_config example_env Map.empty [hello_part]
       = Inr ([hello_file], hello_fs)
   \<and> upload_route example_externals example_config example_env None alice_database Map.empty
       None [hello_part]
     = (Json 400 (ErrorBody ''User ID is required''), alice_database, hello_fs)
   \<and> length [hello_file] = length [hello_part]
   \<and> list_all (\<lambda>f. \<exists>buf. hello_fs (path f) = Some (File buf)) [hello_file]"
proof -
  have h: "falsy None" by (simp add: falsy_def)
  have m: "multer_array example_externals example_config example_env Map.empty [hello_part]
       = Inr ([hello_file], hello_fs)"
    by (simp add: example_defs filter_defs upload_defs)
  from upload_rejection_leaves_files[of None None example_externals alice_database
      example_config example_env Map.empty "[hello_part]", OF disjI1, OF h] h m
  show ?thesis by simp
qed

text \<open>
  C2 as stated fails: a request without a user identifier, and one with the identifier of
  no user, are refused, and the bytes of their file are on a disk that was empty before.
\<close>

theorem rejected_upload_is_on_disk:
  "upload_route example_externals example_config example_env None alice_database Map.empty
     None [hello_part]
   = (Json 400 (ErrorBody ''User ID is required''), alice_database, hello_fs)
   \<and> upload_route example_externals example_config example_env None alice_database Map.empty
       (Some ''9'') [hello_part]
     = (Json 401 (ErrorBody ''Invalid user''), alice_database, hello_fs)
   \<and> hello_fs ''uploads/files-5-7.txt'' = Some (File (content hello_part))"
  by (simp add: example_defs filter_defs upload_defs)

text \<open>
  When the files of a request are stored under pairwise distinct paths, the bytes on the
  disk under the path of each file are the bytes of its part.
\<close>

lemma multer_array_bytes:
  assumes "multer_array x cfg env fs parts = Inr (stored, fs')"
    and "distinct (map path stored)"
  shows "length stored = length parts
       \<and> (\<forall>j<length parts. fs' (path (stored ! j)) = Some (File (content (parts ! j)))
            \<and> fsize (stored ! j) = length (content (parts ! j)))"
proof -
  note hp = multer_array_Inr[OF assms(1)]
  from handle_parts_bytes[OF hp assms(2), of "[]"]
  have l2: "list_all2 (\<lambda>f c. fs' (path f) = Some (File c)) stored (map content parts)" by simp
  from handle_parts_files[OF hp] have len: "length stored = length parts"
    and sizes: "\<forall>j<length parts. fsize (stored ! j) = length (content (parts ! j))" by auto
  from l2 len have "\<forall>j<length parts. fs' (path (stored ! j)) = Some (File (content (parts ! j)))"
    by (simp add: list_all2_conv_all_nth)
  with len sizes show ?thesis by simp
qed



text \<open>
  Two parts of a request that are given the same storage name (equal readings of the
  clock and of the random number) share one file: the byte of \<open>a.txt\<close> is written over
  the first byte of \<open>hello.txt\<close>. Each record keeps the size of its own part, and both
  hashes are the digest of the five bytes the disk holds, not of the bytes received.
\<close>

lemma same_name_parts_share_the_path:
  "upload_route example_externals example_config same_name_env None alice_database Map.empty
     (Some ''1'') [hello_part, a_part]
   = (Json 201 (UploadBody ''Files uploaded successfully''
        [\<lparr>ud_id = 1, ud_originalName = ''hello.txt'', ud_filename = ''files-5-7.txt'',
          ud_size = 5, ud_mimetype = ''text/plain'',
          ud_hash = ''eeb4137f9fdbcd46c0a734b76bdaad9d'', ud_uploadedAt = 100250\<rparr>,
         \<lparr>ud_id = 2, ud_originalName = ''a.txt'', ud_filename = ''files-5-7.txt'',
          ud_size = 1, ud_mimetype = ''text/plain'',
          ud_hash = ''eeb4137f9fdbcd46c0a734b76bdaad9d'', ud_uploadedAt = 100250\<rparr>]),
      alice_database\<lparr>files :=
        [hello_row\<lparr>f_file_hash := Some ''eeb4137f9fdbcd46c0a734b76bdaad9d''\<rparr>,
         \<lparr>f_id = 2, f_user_id = SqlInteger 1, f_original_name = ''a.txt'',
          f_filename = ''files-5-7.txt'', f_file_path = ''uploads/files-5-7.txt'',
          f_file_size = 1, f_mime_type = ''text/plain'',
          f_file_hash = Some ''eeb4137f9fdbcd46c0a734b76bdaad9d'', f_uploaded_at = 100\<rparr>],
        files_seq := 2\<rparr>,
      [''uploads/files-5-7.txt'' \<mapsto> File [0x61, 0x65, 0x6c, 0x6c, 0x6f]])"
  by (simp add: example_defs filter_defs upload_defs)


text \<open>
  C10. In the response of a successful upload the \<open>uploadedAt\<close> of each descriptor is
  the reading of \<open>new Date()\<close> taken when the descriptor is built, while the listing
  returns the \<open>uploaded_at\<close> the database stored at the insert. The first is not derived
  from the second: the same request with other readings of \<open>new Date()\<close> stores the same
  records and returns timestamps that differ from the stored ones.
\<close>

theorem upload_timestamp_is_fresh:
  assumes "upload_handler x env fault d fs userId (Some fl) = (Json 201 (UploadBody m descs), d')"
  shows "length descs = length fl
       \<and> length (files d') = length (files d) + length fl
       \<and> (\<forall>j<length fl.
             ud_uploadedAt (descs ! j) = new_date (env j)
           \<and> ld_id (list_descriptor_of (files d' ! (length (files d) + j))) = ud_id (descs ! j)
           \<and> ld_uploadedAt (list_descriptor_of (files d' ! (length (files d) + j)))
               = current_timestamp (env j))
       \<and> (\<exists>env' descs'.
             upload_handler x env' fault d fs userId (Some fl) = (Json 201 (UploadBody m descs'), d')
           \<and> (\<forall>j<length fl. ud_uploadedAt (descs' ! j)
                 \<noteq> 1000 * ld_uploadedAt (list_descriptor_of (files d' ! (length (files d) + j)))))"
proof -
  from upload_handler_201[OF assms] obtain u user where
    m: "m = ''Files uploaded successfully''" and u: "userId = Some u" "u \<noteq> []" "fl \<noteq> []"
    and user: "getUserById fault x d (Text u) = Inr (Some user)"
    and loop: "upload_loop x env 0 d fs u fl [] = (Inr descs, d')" by blast
  from upload_loop_Inr[OF loop] obtain rows new where
    r: "files d' = files d @ rows" "descs = new" "length rows = length fl" "length new = length fl"
    and all: "\<forall>j<length fl. f_uploaded_at (rows ! j) = current_timestamp (env j)
                \<and> ud_id (new ! j) = f_id (rows ! j)
                \<and> ud_uploadedAt (new ! j) = new_date (env j)"
    by auto
  have 1: "length descs = length fl" using r by simp
  have 2: "length (files d') = length (files d) + length fl" using r by simp
  have 3: "\<forall>j<length fl.
             ud_uploadedAt (descs ! j) = new_date (env j)
           \<and> ld_id (list_descriptor_of (files d' ! (length (files d) + j))) = ud_id (descs ! j)
           \<and> ld_uploadedAt (list_descriptor_of (files d' ! (length (files d) + j)))
               = current_timestamp (env j)"
    using r all by (simp add: list_descriptor_of_def nth_append)
  define env' where "env' = (\<lambda>k. (env k)\<lparr>new_date := 1000 * current_timestamp (env k) + 1\<rparr>)"
  have same: "\<forall>k. insert_fault (env' k) = insert_fault (env k)
             \<and> current_timestamp (env' k) = current_timestamp (env k)"
    by (simp add: env'_def)
  from upload_loop_other_clock[OF same loop, of "[]"] obtain descs' where
    loop': "upload_loop x env' 0 d fs u fl [] = (Inr descs', d')" by blast
  from upload_loop_Inr[OF loop'] obtain rows' new' where
    r': "files d' = files d @ rows'" "descs' = new'" "length rows' = length fl"
    and all': "\<forall>j<length fl. f_uploaded_at (rows' ! j) = current_timestamp (env' j)
                \<and> ud_uploadedAt (new' ! j) = new_date (env' j)"
    by auto
  have 4: "upload_handler x env' fault d fs userId (Some fl) = (Json 201 (UploadBody m descs'), d')"
    using upload_handler_success[OF u(2,3) user loop'] u(1) m by simp
  have 5: "\<forall>j<length fl. ud_uploadedAt (descs' ! j)
                 \<noteq> 1000 * ld_uploadedAt (list_descriptor_of (files d' ! (length (files d) + j)))"
    using r' all' by (simp add: list_descriptor_of_def nth_append env'_def)
  from 1 2 3 4 5 show ?thesis by blast
qed

text \<open>The upload of \<open>hello.txt\<close> and the listing that follows it.\<close>

theorem upload_timestamp_is_fresh_witness:
  "upload_handler example_externals example_env None alice_database hello_fs
     (Some ''1'') (Some [hello_file])
   = (Json 201 (UploadBody ''Files uploaded successfully''
        [\<lparr>ud_id = 1, ud_originalName = ''hello.txt'', ud_filename = ''files-5-7.txt'',
          ud_size = 5, ud_mimetype = ''text/plain'',
          ud_hash = ''5d41402abc4b2a76b9719d911017c592'', ud_uploadedAt = 100250\<rparr>]),
      hello_database)
   \<and> list_files example_externals None None hello_database ''1''
     = Json 200 (FilesBody
        [\<lparr>ld_id = 1, ld_originalName = ''hello.txt'', ld_filename = ''files-5-7.txt'',
          ld_size = 5, ld_mimeType = ''text/plain'',
          ld_hash = Some ''5d41402abc4b2a76b9719d911017c592'', ld_uploadedAt = 100\<rparr>])
   \<and> new_date (example_env 0) = 100250
   \<and> current_timestamp (example_env 0) = 100
   \<and> (100250::nat) \<noteq> 1000 * 100"
proof -
  have h: "upload_handler example_externals example_env None alice_database hello_fs
     (Some ''1'') (Some [hello_file])
   = (Json 201 (UploadBody ''Files uploaded successfully''
        [\<lparr>ud_id = 1, ud_originalName = ''hello.txt'', ud_filename = ''files-5-7.txt'',
          ud_size = 5, ud_mimetype = ''text/plain'',
          ud_hash = ''5d41402abc4b2a76b9719d911017c592'', ud_uploadedAt = 100250\<rparr>]),
      hello_database)"
    by (simp add: example_defs upload_defs)
  have l: "list_files example_externals None None hello_database ''1''
     = Json 200 (FilesBody
        [\<lparr>ld_id = 1, ld_originalName = ''hello.txt'', ld_filename = ''files-5-7.txt'',
          ld_size = 5, ld_mimeType = ''text/plain'',
          ld_hash = Some ''5d41402abc4b2a76b9719d911017c592'', ld_uploadedAt = 100\<rparr>])"
    by (simp add: list_files_def getUserById_def getFilesByUserId_def
        order_by_uploaded_at_desc_def list_descriptor_of_def example_defs)
  have e: "new_date (example_env 0) = 100250" "current_timestamp (example_env 0) = 100"
    by (simp_all add: example_defs)
  from upload_timestamp_is_fresh[OF h] h l e show ?thesis by simp
qed

end
